theory Spec2Isabelle
  imports Main "HOL-Library.Word"
begin

section \<open>Basic types, errors and results\<close>

text \<open>
  Addresses and block timestamps are natural numbers, \<open>uint64\<close> is a 64-bit word and
  \<open>bytes\<close> a list of 8-bit words. A call that reverts returns \<open>Inl\<close> of the error it
  reverts with; a call that completes returns \<open>Inr\<close> of its result. Events and the
  access-control list of ciphertexts are not part of the model.
\<close>

type_synonym address = nat
type_synonym uint64 = "64 word"
type_synonym bytes = "8 word list"

datatype error =
    MarketNotFound
  | InvalidState
  | BettingDeadlinePassed
  | Unauthorized
  | MarketNotResolved
  | AlreadyClaimed
  | InvalidQuestion
  | InvalidDuration
  | InvalidResolver
  | ReentrancyGuardReentrantCall
  | Revert string
  | Panic nat
  | AbiDecodeError
  | InvalidInputProof
  | InvalidKMSSignatures
  | DivisionByZero

text \<open>\<open>Revert msg\<close> is a failed \<open>require(cond, msg)\<close>; \<open>Panic 17\<close> is Solidity's
  panic 0x11 (checked arithmetic overflow); \<open>AbiDecodeError\<close> is the revert of the ABI
  decoder on malformed input.\<close>

definition and_then :: "error + 'a \<Rightarrow> ('a \<Rightarrow> error + 'b) \<Rightarrow> error + 'b" where
  "and_then r f = (case r of Inl e \<Rightarrow> Inl e | Inr x \<Rightarrow> f x)"

subsection \<open>Solidity 0.8 checked arithmetic on \<open>uint64\<close>\<close>

definition checked_add :: "uint64 \<Rightarrow> uint64 \<Rightarrow> error + uint64" where
  "checked_add a b = (if unat a + unat b < 2 ^ 64 then Inr (a + b) else Inl (Panic 17))"

definition checked_sub :: "uint64 \<Rightarrow> uint64 \<Rightarrow> error + uint64" where
  "checked_sub a b = (if unat b \<le> unat a then Inr (a - b) else Inl (Panic 17))"

definition checked_mul :: "uint64 \<Rightarrow> uint64 \<Rightarrow> error + uint64" where
  "checked_mul a b = (if unat a * unat b < 2 ^ 64 then Inr (a * b) else Inl (Panic 17))"

section \<open>The encrypted-integer library (external \<open>FHE\<close> library)\<close>

text \<open>
  A ciphertext is modelled by its handle together with the plaintext it encrypts. The
  contract only ever sees the handle; the plaintext is what a decryption would reveal.
  The handle of a computed ciphertext is determined by the operation and the handles of
  its operands, as the library derives it by hashing them. Arithmetic on \<open>euint64\<close> is
  unchecked: it wraps around modulo \<open>2 ^ 64\<close>. A storage slot that was never written
  holds the zero handle, which the library reads as an encryption of zero.
\<close>

datatype fhe_op = FheAdd | FheSub | FheMul | FheDiv | FheSelect | FheLe | FheAnd

datatype handle =
    Uninitialized
  | Input nat
  | Trivial nat
  | Scalar nat
  | Computed fhe_op "handle list"

record 'a enc =
  hdl :: handle
  plain :: 'a

type_synonym euint64 = "uint64 enc"
type_synonym ebool = "bool enc"

definition FHE_asEuint64 :: "uint64 \<Rightarrow> euint64" where
  "FHE_asEuint64 v = \<lparr>hdl = Trivial (unat v), plain = v\<rparr>"

definition FHE_asEbool :: "bool \<Rightarrow> ebool" where
  "FHE_asEbool b = \<lparr>hdl = Trivial (if b then 1 else 0), plain = b\<rparr>"

definition FHE_add :: "euint64 \<Rightarrow> euint64 \<Rightarrow> euint64" where
  "FHE_add a b = \<lparr>hdl = Computed FheAdd [hdl a, hdl b], plain = plain a + plain b\<rparr>"

definition FHE_sub :: "euint64 \<Rightarrow> euint64 \<Rightarrow> euint64" where
  "FHE_sub a b = \<lparr>hdl = Computed FheSub [hdl a, hdl b], plain = plain a - plain b\<rparr>"

definition FHE_mul :: "euint64 \<Rightarrow> euint64 \<Rightarrow> euint64" where
  "FHE_mul a b = \<lparr>hdl = Computed FheMul [hdl a, hdl b], plain = plain a * plain b\<rparr>"

text \<open>Division is by a plaintext divisor only; the library reverts on a zero divisor.\<close>

definition FHE_div :: "euint64 \<Rightarrow> uint64 \<Rightarrow> error + euint64" where
  "FHE_div a d =
     (if d = 0 then Inl DivisionByZero
      else Inr \<lparr>hdl = Computed FheDiv [hdl a, Scalar (unat d)], plain = plain a div d\<rparr>)"

definition FHE_select :: "ebool \<Rightarrow> euint64 \<Rightarrow> euint64 \<Rightarrow> euint64" where
  "FHE_select c a b =
     \<lparr>hdl = Computed FheSelect [hdl c, hdl a, hdl b],
      plain = (if plain c then plain a else plain b)\<rparr>"

definition FHE_le :: "euint64 \<Rightarrow> euint64 \<Rightarrow> ebool" where
  "FHE_le a b = \<lparr>hdl = Computed FheLe [hdl a, hdl b], plain = (plain a \<le> plain b)\<rparr>"

definition FHE_and :: "ebool \<Rightarrow> ebool \<Rightarrow> ebool" where
  "FHE_and a b = \<lparr>hdl = Computed FheAnd [hdl a, hdl b], plain = (plain a \<and> plain b)\<rparr>"

definition FHE_toBytes32 :: "'a enc \<Rightarrow> handle" where
  "FHE_toBytes32 a = hdl a"

text \<open>\<open>FHE.fromExternal(input, inputProof)\<close>: the input proof is modelled by whether
  it verifies.\<close>

definition FHE_fromExternal :: "'a enc \<Rightarrow> bool \<Rightarrow> error + 'a enc" where
  "FHE_fromExternal input inputProof = (if inputProof then Inr input else Inl InvalidInputProof)"

section \<open>Market data (\<open>IBlindBetMarket\<close>, \<open>MarketLib\<close>)\<close>

datatype MarketState = Open | Locked | Resolving | Resolved

datatype Outcome = NotSet | Yes | No | Invalid

fun uint8_of_Outcome :: "Outcome \<Rightarrow> nat" where
  "uint8_of_Outcome NotSet = 0"
| "uint8_of_Outcome Yes = 1"
| "uint8_of_Outcome No = 2"
| "uint8_of_Outcome Invalid = 3"

text \<open>An enum argument arrives as a number; the ABI decoder rejects a number that is
  not a member of the enum.\<close>

definition Outcome_of_uint8 :: "nat \<Rightarrow> error + Outcome" where
  "Outcome_of_uint8 n =
     (if n = 0 then Inr NotSet else if n = 1 then Inr Yes else if n = 2 then Inr No
      else if n = 3 then Inr Invalid else Inl AbiDecodeError)"

text \<open>
  Modelled from the spec: the struct \<open>MarketLib.Market\<close> is not among the sources. Its
  fields are the ones the sources read and write (\<open>market.state\<close>,
  \<open>market.resolvedOutcome\<close>, \<open>market.totalsDecrypted\<close>, ...) and the ones section 3
  of the specification and \<open>MarketInfo\<close> list. The two \<open>uint8\<close> fields \<open>state\<close> and
  \<open>resolvedOutcome\<close> only ever receive \<open>uint8(MarketState.X)\<close> and
  \<open>uint8(Outcome.X)\<close>, so they are kept as the enum member.
\<close>

record Market =
  market_id :: nat
  question :: string
  createdAt :: nat
  bettingDeadline :: nat
  resolutionTime :: nat
  state :: MarketState
  resolvedOutcome :: Outcome
  creator :: address
  resolver :: address
  image_url :: string
  category :: string
  totalYesAmount :: euint64
  totalNoAmount :: euint64
  totalsDecrypted :: bool
  decryptedYesAmount :: uint64
  decryptedNoAmount :: uint64

text \<open>Modelled from the spec: the struct \<open>MarketLib.Position\<close> is not among the
  sources. Its fields are the ones the sources read (\<open>yesAmount\<close>, \<open>noAmount\<close>,
  \<open>exists\<close>, \<open>claimed\<close>), as in section 3 of the specification.\<close>

record Position =
  yesAmount :: euint64
  noAmount :: euint64
  exists :: ebool
  claimed :: bool

section \<open>\<open>PayoutCalculator\<close>\<close>

definition FEE_BASIS_POINTS :: uint64 where
  "FEE_BASIS_POINTS = 200"

definition BASIS_POINTS_DENOMINATOR :: uint64 where
  "BASIS_POINTS_DENOMINATOR = 10000"

text \<open>\<open>_calculateWinningPayout\<close>. The fee and the prize pool are computed, in checked
  \<open>uint64\<close> arithmetic, and then not used.\<close>

definition calculateWinningPayout :: "euint64 \<Rightarrow> Market \<Rightarrow> bool \<Rightarrow> error + euint64" where
  "calculateWinningPayout userPosition market isYesWinner =
     (if \<not> totalsDecrypted market then Inl (Revert ''Totals not decrypted'')
      else
        let winningPool = (if isYesWinner then decryptedYesAmount market
                           else decryptedNoAmount market);
            losingPool = (if isYesWinner then decryptedNoAmount market
                          else decryptedYesAmount market)
        in if winningPool = 0 \<or> losingPool = 0 then Inr userPosition
           else
             and_then (checked_add winningPool losingPool) (\<lambda>totalPool.
             and_then (checked_mul totalPool FEE_BASIS_POINTS) (\<lambda>scaled.
             let feeAmount = scaled div BASIS_POINTS_DENOMINATOR in
             and_then (checked_sub totalPool feeAmount) (\<lambda>prizePool.
             and_then (FHE_div (FHE_mul userPosition (FHE_asEuint64 losingPool)) winningPool)
               (\<lambda>profit.
             Inr (FHE_add userPosition profit))))))"

definition calculatePayout :: "Position \<Rightarrow> Market \<Rightarrow> nat \<Rightarrow> error + euint64" where
  "calculatePayout position market outcome =
     (if outcome = 3 then Inr (FHE_add (yesAmount position) (noAmount position))
      else if outcome = 1 then calculateWinningPayout (yesAmount position) market True
      else if outcome = 2 then calculateWinningPayout (noAmount position) market False
      else Inr (FHE_asEuint64 0))"

definition calculateMarketFee :: "Market \<Rightarrow> error + uint64" where
  "calculateMarketFee market =
     (if \<not> totalsDecrypted market then Inl (Revert ''Totals not decrypted'')
      else
        and_then (checked_add (decryptedYesAmount market) (decryptedNoAmount market))
          (\<lambda>totalPool.
        and_then (checked_mul totalPool FEE_BASIS_POINTS) (\<lambda>scaled.
        Inr (scaled div BASIS_POINTS_DENOMINATOR))))"

section \<open>\<open>FHEMath\<close>\<close>

definition safeMul :: "euint64 \<Rightarrow> euint64 \<Rightarrow> euint64 \<times> ebool" where
  "safeMul a b =
     (let result = FHE_mul a b;
          hasOverflow = FHE_asEbool False
      in (result, hasOverflow))"

section \<open>The confidential token (external collaborator)\<close>

text \<open>
  Modelled from the spec: the token contract (\<open>ConfidentialERC20\<close>) is not among the
  sources, only its interface and its tests. Its state is the encrypted balances and
  allowances.
\<close>

record Token =
  balances :: "address \<Rightarrow> euint64"
  allowances :: "address \<Rightarrow> address \<Rightarrow> euint64"

text \<open>Modelled from the spec: \<open>balanceOf\<close> of the missing token returns the encrypted
  balance (section 6 of the specification).\<close>

definition balanceOf :: "Token \<Rightarrow> address \<Rightarrow> euint64" where
  "balanceOf t account = balances t account"

text \<open>Modelled from the spec: the missing token's internal move of an encrypted value
  from one balance to another.\<close>

definition token_move :: "Token \<Rightarrow> address \<Rightarrow> address \<Rightarrow> euint64 \<Rightarrow> Token" where
  "token_move t sender recipient v =
     (let b1 = (balances t)(recipient := FHE_add (balances t recipient) v);
          b2 = b1(sender := FHE_sub (b1 sender) v)
      in t\<lparr>balances := b2\<rparr>)"

text \<open>Modelled from the spec: \<open>transferFromEncrypted\<close> of the missing token. By
  section 6 of the specification and the token's tests, a transfer whose amount exceeds
  the sender's balance or the spender's allowance does not revert but moves zero. The
  first address argument is the caller of the token (\<open>msg.sender\<close> there), the
  spender.\<close>

definition transferFromEncrypted ::
  "Token \<Rightarrow> address \<Rightarrow> address \<Rightarrow> address \<Rightarrow> euint64 \<Rightarrow> Token" where
  "transferFromEncrypted t spender sender recipient amount =
     (let canTransfer = FHE_and (FHE_le amount (allowances t sender spender))
                                (FHE_le amount (balances t sender));
          transferValue = FHE_select canTransfer amount (FHE_asEuint64 0);
          t' = t\<lparr>allowances := (allowances t)(sender := (allowances t sender)
                  (spender := FHE_sub (allowances t sender spender) transferValue))\<rparr>
      in token_move t' sender recipient transferValue)"

text \<open>Modelled from the spec: \<open>transferEncrypted\<close> of the missing token, which moves
  the amount from its caller's balance, or zero when the balance is too small.\<close>

definition transferEncrypted :: "Token \<Rightarrow> address \<Rightarrow> address \<Rightarrow> euint64 \<Rightarrow> Token" where
  "transferEncrypted t sender recipient amount =
     (let canTransfer = FHE_le amount (balances t sender);
          transferValue = FHE_select canTransfer amount (FHE_asEuint64 0)
      in token_move t sender recipient transferValue)"

section \<open>Contract storage and the environment of a call\<close>

text \<open>
  \<open>Contract\<close> is the storage of one deployed \<open>BlindBetMarket\<close> (with the storage of
  its bases \<open>MarketBase\<close> and \<open>Resolvable\<close>) together with the state of the token it
  was deployed with; \<open>self\<close> is \<open>address(this)\<close>. Solidity mappings are total functions
  whose default is the zero value. \<open>uint256\<close> counters and timestamps are natural
  numbers. \<open>Env\<close> carries \<open>msg.sender\<close>, \<open>block.timestamp\<close> and the verdict of the
  external \<open>FHE.checkSignatures\<close> on a triple of handles, cleartexts and proof.
\<close>

record Contract =
  self :: address
  owner :: address
  token :: Token
  reentrancyEntered :: bool
  marketCount :: nat
  markets :: "nat \<Rightarrow> Market"
  positions :: "nat \<Rightarrow> address \<Rightarrow> Position"
  decryptionCompleted :: "nat \<Rightarrow> bool"
  decryptedYesTotal :: "nat \<Rightarrow> uint64"
  decryptedNoTotal :: "nat \<Rightarrow> uint64"

record Env =
  msg_sender :: address
  block_timestamp :: nat
  checkSignatures :: "handle list \<Rightarrow> bytes \<Rightarrow> bytes \<Rightarrow> bool"

definition zeroEuint64 :: euint64 where
  "zeroEuint64 = \<lparr>hdl = Uninitialized, plain = 0\<rparr>"

definition zeroEbool :: ebool where
  "zeroEbool = \<lparr>hdl = Uninitialized, plain = False\<rparr>"

definition zeroMarket :: Market where
  "zeroMarket =
     \<lparr>market_id = 0, question = [], createdAt = 0, bettingDeadline = 0, resolutionTime = 0,
      state = Open, resolvedOutcome = NotSet, creator = 0, resolver = 0, image_url = [],
      category = [], totalYesAmount = zeroEuint64, totalNoAmount = zeroEuint64,
      totalsDecrypted = False, decryptedYesAmount = 0, decryptedNoAmount = 0\<rparr>"

definition zeroPosition :: Position where
  "zeroPosition =
     \<lparr>yesAmount = zeroEuint64, noAmount = zeroEuint64, exists = zeroEbool,
      claimed = False\<rparr>"

text \<open>The contract right after deployment by \<open>deployer\<close> at address \<open>this\<close>.\<close>

definition deploy :: "address \<Rightarrow> address \<Rightarrow> Token \<Rightarrow> Contract" where
  "deploy this deployer tok =
     \<lparr>self = this, owner = deployer, token = tok, reentrancyEntered = False,
      marketCount = 0, markets = (\<lambda>_. zeroMarket), positions = (\<lambda>_ _. zeroPosition),
      decryptionCompleted = (\<lambda>_. False), decryptedYesTotal = (\<lambda>_. 0),
      decryptedNoTotal = (\<lambda>_. 0)\<rparr>"

section \<open>\<open>MarketLib\<close>\<close>

text \<open>\<open>MarketLib.sol\<close> is not among the sources; each of its functions that the market
  contract calls is modelled from the specification.\<close>

text \<open>Modelled from the spec: \<open>MarketLib.initializeMarket\<close> is missing. By sections 3
  and 4.1 a new market is Open with outcome NotSet; its betting deadline is the creation
  time plus the betting duration and its resolution time the deadline plus the
  resolution delay; its pools start as encryptions of zero.\<close>

definition initializeMarket ::
  "Market \<Rightarrow> nat \<Rightarrow> string \<Rightarrow> nat \<Rightarrow> nat \<Rightarrow> address \<Rightarrow> address \<Rightarrow> string \<Rightarrow> string \<Rightarrow> nat
     \<Rightarrow> Market" where
  "initializeMarket market marketId q bettingDuration resolutionDelay cr res img cat now =
     market\<lparr>market_id := marketId, question := q, createdAt := now,
            bettingDeadline := now + bettingDuration,
            resolutionTime := now + bettingDuration + resolutionDelay,
            state := Open, resolvedOutcome := NotSet, creator := cr, resolver := res,
            image_url := img, category := cat,
            totalYesAmount := FHE_asEuint64 0, totalNoAmount := FHE_asEuint64 0\<rparr>"

text \<open>Modelled from the spec: \<open>MarketLib.updatePosition\<close> is missing. By section 4.3
  and the repository's README
  (\<open>yesAmount = select(outcome, add(yesAmount, amount), yesAmount)\<close>) the amount is
  added to the Yes stake if the encrypted side is true and to the No stake otherwise,
  by selection over the two sums, and the position flag is set.\<close>

definition updatePosition :: "Position \<Rightarrow> euint64 \<Rightarrow> ebool \<Rightarrow> address \<Rightarrow> Position" where
  "updatePosition position amount outcome user =
     position\<lparr>yesAmount := FHE_select outcome (FHE_add (yesAmount position) amount)
                                         (yesAmount position),
              noAmount := FHE_select outcome (noAmount position)
                                        (FHE_add (noAmount position) amount),
              exists := FHE_asEbool True\<rparr>"

text \<open>Modelled from the spec: \<open>MarketLib.updateMarketTotals\<close> is missing. By section
  4.3 it mirrors the same branchless update on the market's two pools.\<close>

definition updateMarketTotals :: "Market \<Rightarrow> euint64 \<Rightarrow> ebool \<Rightarrow> Market" where
  "updateMarketTotals market amount outcome =
     market\<lparr>totalYesAmount := FHE_select outcome (FHE_add (totalYesAmount market) amount)
                                             (totalYesAmount market),
            totalNoAmount := FHE_select outcome (totalNoAmount market)
                                            (FHE_add (totalNoAmount market) amount)\<rparr>"

text \<open>Modelled from the spec: \<open>MarketLib.lockMarket\<close> is missing. By section 4.1 it
  moves the market to Locked.\<close>

definition MarketLib_lockMarket :: "Market \<Rightarrow> Market" where
  "MarketLib_lockMarket market = market\<lparr>state := Locked\<rparr>"

text \<open>Modelled from the spec: \<open>MarketLib.markResolved\<close> is missing. By section 4.5
  the plaintext totals are stored, the totals-decrypted flag is set, and the market
  moves to Resolved with the outcome it is given.\<close>

definition markResolved :: "Market \<Rightarrow> Outcome \<Rightarrow> uint64 \<Rightarrow> uint64 \<Rightarrow> Market" where
  "markResolved market outcome totalYes totalNo =
     market\<lparr>state := Resolved, resolvedOutcome := outcome,
            decryptedYesAmount := totalYes, decryptedNoAmount := totalNo,
            totalsDecrypted := True\<rparr>"

section \<open>\<open>MarketBase\<close>\<close>

text \<open>
  \<open>MarketBase.sol\<close> is not among the sources; each of its modifiers and helpers that
  the market contract uses is modelled from the specification, with the error each gate
  reverts with taken from the repository's tests. A modifier is a function of the body
  it guards.
\<close>

text \<open>Modelled from the spec: the modifier \<open>nonReentrant\<close> is missing. By section 5 a
  reentrancy guard prevents a nested entry into bet placement or claim: it reverts when
  entered, and is entered only while a guarded body runs.\<close>

definition nonReentrant :: "Contract \<Rightarrow> (Contract \<Rightarrow> error + Contract) \<Rightarrow> error + Contract" where
  "nonReentrant s body =
     (if reentrancyEntered s then Inl ReentrancyGuardReentrantCall
      else case body (s\<lparr>reentrancyEntered := True\<rparr>) of
             Inl e \<Rightarrow> Inl e
           | Inr s' \<Rightarrow> Inr (s'\<lparr>reentrancyEntered := False\<rparr>))"

text \<open>Modelled from the spec: the modifier \<open>marketExists\<close> is missing. Markets are
  numbered from 0 by \<open>marketCount\<close>; the tests expect \<open>MarketNotFound\<close> for an
  identifier that was never created.\<close>

definition marketExists :: "nat \<Rightarrow> Contract \<Rightarrow> error + 'a \<Rightarrow> error + 'a" where
  "marketExists marketId s body = (if marketId \<ge> marketCount s then Inl MarketNotFound else body)"

text \<open>Modelled from the spec: the modifier \<open>onlyMarketState\<close> is missing. By section
  4.1 an operation outside its required state fails with an invalid-state error; the
  tests expect \<open>InvalidState\<close>.\<close>

definition onlyMarketState :: "nat \<Rightarrow> MarketState \<Rightarrow> Contract \<Rightarrow> error + 'a \<Rightarrow> error + 'a" where
  "onlyMarketState marketId expected s body =
     (if state (markets s marketId) \<noteq> expected then Inl InvalidState else body)"

text \<open>Modelled from the spec: the modifier \<open>onlyBeforeDeadline\<close> is missing. Betting
  is closed from the betting deadline on (the tests: at the exact deadline betting is
  closed), with the error \<open>BettingDeadlinePassed\<close>.\<close>

definition onlyBeforeDeadline :: "Env \<Rightarrow> nat \<Rightarrow> Contract \<Rightarrow> error + 'a \<Rightarrow> error + 'a" where
  "onlyBeforeDeadline env marketId s body =
     (if block_timestamp env \<ge> bettingDeadline (markets s marketId)
      then Inl BettingDeadlinePassed else body)"

text \<open>Modelled from the spec: the modifier \<open>onlyAfterDeadline\<close> is missing. By
  section 4.1 locking is legal only after the betting deadline; the tests expect
  \<open>InvalidState\<close> for an early lock.\<close>

definition onlyAfterDeadline :: "Env \<Rightarrow> nat \<Rightarrow> Contract \<Rightarrow> error + 'a \<Rightarrow> error + 'a" where
  "onlyAfterDeadline env marketId s body =
     (if block_timestamp env < bettingDeadline (markets s marketId)
      then Inl InvalidState else body)"

text \<open>Modelled from the spec: the modifier \<open>onlyAfterResolutionTime\<close> is missing. By
  section 4.1 requesting resolution is legal only after the resolution time; the tests
  expect \<open>InvalidState\<close> for an early request.\<close>

definition onlyAfterResolutionTime :: "Env \<Rightarrow> nat \<Rightarrow> Contract \<Rightarrow> error + 'a \<Rightarrow> error + 'a" where
  "onlyAfterResolutionTime env marketId s body =
     (if block_timestamp env < resolutionTime (markets s marketId)
      then Inl InvalidState else body)"

text \<open>Modelled from the spec: the modifier \<open>onlyResolved\<close> is missing. It guards
  \<open>setResolution\<close>, which by section 4.1 needs state Resolved with the outcome still
  NotSet, and \<open>claimWinnings\<close>, which needs a resolved market with its outcome set: it
  lets a market in state Resolved through; the tests expect \<open>MarketNotResolved\<close>
  otherwise.\<close>

definition onlyResolved :: "nat \<Rightarrow> Contract \<Rightarrow> error + 'a \<Rightarrow> error + 'a" where
  "onlyResolved marketId s body =
     (if state (markets s marketId) \<noteq> Resolved then Inl MarketNotResolved else body)"

text \<open>Modelled from the spec: \<open>_markClaimed\<close> is missing. By sections 3 and 4.4 it
  sets the plaintext claimed flag of the position.\<close>

definition markClaimed :: "nat \<Rightarrow> address \<Rightarrow> Contract \<Rightarrow> Contract" where
  "markClaimed marketId user s =
     s\<lparr>positions := (positions s)(marketId := (positions s marketId)
          (user := (positions s marketId user)\<lparr>claimed := True\<rparr>))\<rparr>"

text \<open>Modelled from the spec: \<open>_validateMarketParams\<close> is missing. By section 4.2 it
  bounds the question length and the two durations and refuses a zero resolver; the
  bounds and errors are the ones the tests expect.\<close>

definition validateMarketParams :: "string \<Rightarrow> nat \<Rightarrow> nat \<Rightarrow> address \<Rightarrow> error + 'a \<Rightarrow> error + 'a" where
  "validateMarketParams q bettingDuration resolutionDelay res body =
     (if length q < 10 \<or> length q > 500 then Inl InvalidQuestion
      else if bettingDuration < 3600 \<or> bettingDuration > 365 * 86400 then Inl InvalidDuration
      else if resolutionDelay < 3600 \<or> resolutionDelay > 30 * 86400 then Inl InvalidDuration
      else if res = 0 then Inl InvalidResolver
      else body)"

section \<open>\<open>Resolvable\<close>\<close>

text \<open>\<open>abi.decode(cleartexts, (uint64, uint64))\<close>: two 32-byte big-endian words, each
  of which must fit 64 bits.\<close>

definition be_nat :: "bytes \<Rightarrow> nat" where
  "be_nat bs = foldl (\<lambda>acc b. acc * 256 + unat b) 0 bs"

definition abi_decode_uint64_pair :: "bytes \<Rightarrow> error + uint64 \<times> uint64" where
  "abi_decode_uint64_pair bs =
     (if length bs < 64 then Inl AbiDecodeError
      else
        let a = be_nat (take 32 bs);
            b = be_nat (take 32 (drop 32 bs))
        in if a < 2 ^ 64 \<and> b < 2 ^ 64 then Inr (word_of_nat a, word_of_nat b)
           else Inl AbiDecodeError)"

text \<open>\<open>Resolvable.submitDecryptedTotals\<close>, the parent implementation. The hook
  \<open>_onDecryptionCompleted\<close> is empty.\<close>

definition Resolvable_submitDecryptedTotals ::
  "Env \<Rightarrow> nat \<Rightarrow> handle list \<Rightarrow> bytes \<Rightarrow> bytes \<Rightarrow> Contract \<Rightarrow> error + Contract" where
  "Resolvable_submitDecryptedTotals env marketId handlesList cleartexts decryptionProof s =
     (if \<not> checkSignatures env handlesList cleartexts decryptionProof
      then Inl InvalidKMSSignatures
      else
        and_then (abi_decode_uint64_pair cleartexts) (\<lambda>(totalYes, totalNo).
        Inr (s\<lparr>decryptedYesTotal := (decryptedYesTotal s)(marketId := totalYes),
               decryptedNoTotal := (decryptedNoTotal s)(marketId := totalNo),
               decryptionCompleted := (decryptionCompleted s)(marketId := True)\<rparr>)))"

section \<open>\<open>BlindBetMarket\<close>\<close>

definition isAuthorizedResolver :: "nat \<Rightarrow> address \<Rightarrow> Contract \<Rightarrow> error + bool" where
  "isAuthorizedResolver marketId res s =
     marketExists marketId s (Inr (resolver (markets s marketId) = res \<or> res = owner s))"

text \<open>Modelled from the spec: the modifier \<open>onlyResolver\<close> of \<open>MarketBase\<close> is
  missing. By section 4.1 it lets the designated resolver and the owner through, that
  is, the callers \<open>isAuthorizedResolver\<close> accepts; the tests expect \<open>Unauthorized\<close>
  otherwise.\<close>

definition onlyResolver :: "Env \<Rightarrow> nat \<Rightarrow> Contract \<Rightarrow> error + 'a \<Rightarrow> error + 'a" where
  "onlyResolver env marketId s body =
     (case isAuthorizedResolver marketId (msg_sender env) s of
        Inl e \<Rightarrow> Inl e
      | Inr authorized \<Rightarrow> if authorized then body else Inl Unauthorized)"

definition createMarket ::
  "Env \<Rightarrow> string \<Rightarrow> nat \<Rightarrow> nat \<Rightarrow> address \<Rightarrow> string \<Rightarrow> string \<Rightarrow> Contract \<Rightarrow> error + Contract" where
  "createMarket env q bettingDuration resolutionDelay res img cat s =
     validateMarketParams q bettingDuration resolutionDelay res
       (let marketId = marketCount s;
            s1 = s\<lparr>marketCount := marketCount s + 1\<rparr>;
            market = initializeMarket (markets s1 marketId) marketId q bettingDuration
                       resolutionDelay (msg_sender env) res img cat (block_timestamp env)
        in Inr (s1\<lparr>markets := (markets s1)(marketId := market)\<rparr>))"

definition placeBet :: "Env \<Rightarrow> nat \<Rightarrow> euint64 \<Rightarrow> ebool \<Rightarrow> bool \<Rightarrow> Contract \<Rightarrow> error + Contract" where
  "placeBet env marketId encryptedAmount encryptedOutcome inputProof s0 =
     nonReentrant s0 (\<lambda>s.
     marketExists marketId s (
     onlyMarketState marketId Open s (
     onlyBeforeDeadline env marketId s (
       let market = markets s marketId;
           position = positions s marketId (msg_sender env)
       in
       and_then (FHE_fromExternal encryptedAmount inputProof) (\<lambda>amount.
       and_then (FHE_fromExternal encryptedOutcome inputProof) (\<lambda>outcome.
       let balanceBefore = balanceOf (token s) (self s);
           tok = transferFromEncrypted (token s) (self s) (msg_sender env) (self s) amount;
           balanceAfter = balanceOf tok (self s);
           actualAmount = FHE_sub balanceAfter balanceBefore;
           position' = updatePosition position actualAmount outcome (msg_sender env);
           market' = updateMarketTotals market actualAmount outcome
       in Inr (s\<lparr>token := tok,
                 positions := (positions s)(marketId := (positions s marketId)
                                (msg_sender env := position')),
                 markets := (markets s)(marketId := market')\<rparr>)))))))"

definition lockMarket :: "Env \<Rightarrow> nat \<Rightarrow> Contract \<Rightarrow> error + Contract" where
  "lockMarket env marketId s =
     marketExists marketId s (
     onlyMarketState marketId Open s (
     onlyAfterDeadline env marketId s (
       Inr (s\<lparr>markets := (markets s)(marketId := MarketLib_lockMarket (markets s marketId))\<rparr>))))"

text \<open>\<open>_enablePublicDecryption\<close> only changes the access-control list and emits an
  event, so it leaves the modelled state as it is.\<close>

definition requestResolution :: "Env \<Rightarrow> nat \<Rightarrow> Contract \<Rightarrow> error + Contract" where
  "requestResolution env marketId s =
     marketExists marketId s (
     onlyMarketState marketId Locked s (
     onlyAfterResolutionTime env marketId s (
     onlyResolver env marketId s (
       Inr (s\<lparr>markets := (markets s)(marketId := (markets s marketId)\<lparr>state := Resolving\<rparr>)\<rparr>)))))"

definition submitDecryptedTotals ::
  "Env \<Rightarrow> nat \<Rightarrow> handle list \<Rightarrow> bytes \<Rightarrow> bytes \<Rightarrow> Contract \<Rightarrow> error + Contract" where
  "submitDecryptedTotals env marketId handlesList cleartexts decryptionProof s =
     marketExists marketId s (
       if state (markets s marketId) \<noteq> Resolving then Inl (Revert ''Market not resolving'')
       else
         and_then (Resolvable_submitDecryptedTotals env marketId handlesList cleartexts
                     decryptionProof s) (\<lambda>s1.
         let totalYes = decryptedYesTotal s1 marketId;
             totalNo = decryptedNoTotal s1 marketId
         in Inr (s1\<lparr>markets := (markets s1)(marketId :=
                      markResolved (markets s1 marketId) NotSet totalYes totalNo)\<rparr>)))"

definition setResolution :: "Env \<Rightarrow> nat \<Rightarrow> nat \<Rightarrow> Contract \<Rightarrow> error + Contract" where
  "setResolution env marketId outcomeArg s =
     and_then (Outcome_of_uint8 outcomeArg) (\<lambda>outcome.
     marketExists marketId s (
     onlyResolved marketId s (
     onlyResolver env marketId s (
       if outcome = Yes \<or> outcome = No \<or> outcome = Invalid
       then Inr (s\<lparr>markets := (markets s)(marketId :=
                     (markets s marketId)\<lparr>resolvedOutcome := outcome\<rparr>)\<rparr>)
       else Inl (Revert ''Invalid outcome'')))))"

definition claimWinnings :: "Env \<Rightarrow> nat \<Rightarrow> Contract \<Rightarrow> error + Contract" where
  "claimWinnings env marketId s0 =
     nonReentrant s0 (\<lambda>s.
     marketExists marketId s (
     onlyResolved marketId s (
       if claimed (positions s marketId (msg_sender env)) then Inl AlreadyClaimed
       else
         let s1 = markClaimed marketId (msg_sender env) s;
             market = markets s1 marketId;
             position = positions s1 marketId (msg_sender env)
         in
         and_then (calculatePayout position market (uint8_of_Outcome (resolvedOutcome market)))
           (\<lambda>payout.
         Inr (s1\<lparr>token := transferEncrypted (token s1) (self s1) (msg_sender env) payout\<rparr>)))))"

section \<open>Transactions\<close>

text \<open>The external calls of the contract. A transaction that reverts leaves no
  effect.\<close>

datatype Call =
    CreateMarket string nat nat address string string
  | PlaceBet nat euint64 ebool bool
  | LockMarket nat
  | RequestResolution nat
  | SubmitDecryptedTotals nat "handle list" bytes bytes
  | SetResolution nat nat
  | ClaimWinnings nat

fun call :: "Env \<Rightarrow> Call \<Rightarrow> Contract \<Rightarrow> error + Contract" where
  "call env (CreateMarket q bd rd res img cat) s = createMarket env q bd rd res img cat s"
| "call env (PlaceBet m a outc pf) s = placeBet env m a outc pf s"
| "call env (LockMarket m) s = lockMarket env m s"
| "call env (RequestResolution m) s = requestResolution env m s"
| "call env (SubmitDecryptedTotals m hs ct pf) s = submitDecryptedTotals env m hs ct pf s"
| "call env (SetResolution m outc) s = setResolution env m outc s"
| "call env (ClaimWinnings m) s = claimWinnings env m s"

definition transact :: "Env \<Rightarrow> Call \<Rightarrow> Contract \<Rightarrow> Contract" where
  "transact env c s = (case call env c s of Inl e \<Rightarrow> s | Inr s' \<Rightarrow> s')"

fun run :: "Contract \<Rightarrow> (Env \<times> Call) list \<Rightarrow> Contract" where
  "run s [] = s"
| "run s ((env, c) # rest) = run (transact env c s) rest"

section \<open>Notions of the claims and concrete scenarios\<close>

text \<open>The lifecycle order: a state may stay, or move to its successor.\<close>

fun rank :: "MarketState \<Rightarrow> nat" where
  "rank Open = 0"
| "rank Locked = 1"
| "rank Resolving = 2"
| "rank Resolved = 3"

definition lifecycle_step :: "MarketState \<Rightarrow> MarketState \<Rightarrow> bool" where
  "lifecycle_step a b = (b = a \<or> rank b = Suc (rank a))"

text \<open>The payouts of a list of winning stakes, summed as numbers; it fails when one of
  the payout computations reverts.\<close>

fun sum_payouts :: "euint64 list \<Rightarrow> Market \<Rightarrow> bool \<Rightarrow> error + nat" where
  "sum_payouts [] market isYesWinner = Inr 0"
| "sum_payouts (u # us) market isYesWinner =
     and_then (calculateWinningPayout u market isYesWinner) (\<lambda>p.
     and_then (sum_payouts us market isYesWinner) (\<lambda>t.
     Inr (unat (plain p) + t)))"

definition stake_total :: "euint64 list \<Rightarrow> nat" where
  "stake_total stakes = sum_list (map (\<lambda>u. unat (plain u)) stakes)"

text \<open>The prize pool in the words of the specification: the combined pool less the
  fee, with the fee as \<open>calculateMarketFee\<close> computes it.\<close>

definition prizePool :: "Market \<Rightarrow> error + nat" where
  "prizePool market =
     and_then (calculateMarketFee market) (\<lambda>fee.
     Inr (unat (decryptedYesAmount market) + unat (decryptedNoAmount market) - unat fee))"

text \<open>ABI encoding of two \<open>uint64\<close> values, to write down cleartexts.\<close>

definition be_bytes32 :: "nat \<Rightarrow> bytes" where
  "be_bytes32 n = map (\<lambda>i. word_of_nat (n div 256 ^ (31 - i))) [0..<32]"

definition abi_encode_uint64_pair :: "uint64 \<Rightarrow> uint64 \<Rightarrow> bytes" where
  "abi_encode_uint64_pair y n = be_bytes32 (unat y) @ be_bytes32 (unat n)"

text \<open>Ciphertexts supplied by users, with the handle number given.\<close>

definition enc64 :: "nat \<Rightarrow> uint64 \<Rightarrow> euint64" where
  "enc64 i v = \<lparr>hdl = Input i, plain = v\<rparr>"

definition encBool :: "nat \<Rightarrow> bool \<Rightarrow> ebool" where
  "encBool i v = \<lparr>hdl = Input i, plain = v\<rparr>"

text \<open>A market whose totals have been decrypted to \<open>y\<close> and \<open>n\<close>, and a position with
  given stakes.\<close>

definition settledMarket :: "uint64 \<Rightarrow> uint64 \<Rightarrow> Market" where
  "settledMarket y n =
     zeroMarket\<lparr>state := Resolved, totalsDecrypted := True,
                decryptedYesAmount := y, decryptedNoAmount := n\<rparr>"

definition positionOf :: "uint64 \<Rightarrow> uint64 \<Rightarrow> Position" where
  "positionOf y n =
     \<lparr>yesAmount = enc64 1 y, noAmount = enc64 2 n, exists = FHE_asEbool True,
      claimed = False\<rparr>"

text \<open>
  A deployment: the market contract lives at address 100 and was deployed by 1. Alice
  (2) and Bob (3) each hold 5000 token units and have approved the market for 5000;
  Carol (5) holds 1000 and has approved only 400. Address 4 is the resolver of the
  market created below and 6 is an outsider.
\<close>

definition token0 :: Token where
  "token0 =
     \<lparr>balances = (\<lambda>_. zeroEuint64)
         (2 := enc64 10 5000, 3 := enc64 11 5000, 5 := enc64 12 1000),
      allowances = (\<lambda>_ _. zeroEuint64)
         (2 := (\<lambda>_. zeroEuint64)(100 := enc64 20 5000),
          3 := (\<lambda>_. zeroEuint64)(100 := enc64 21 5000),
          5 := (\<lambda>_. zeroEuint64)(100 := enc64 22 400))\<rparr>"

definition deployed :: Contract where
  "deployed = deploy 100 1 token0"

text \<open>
  Before resolution is requested, the decryption service has signed one decryption
  only: of two ciphertexts that do not belong to the market, \<open>Input 77\<close> and
  \<open>Input 78\<close> (say, of another contract that made them publicly decryptable), to the
  cleartexts 5000 and 0, under the proof \<open>[1]\<close>. \<open>at sender now\<close> is a call in that
  period.
\<close>

definition foreignHandles :: "handle list" where
  "foreignHandles = [Input 77, Input 78]"

definition kmsBefore :: "handle list \<Rightarrow> bytes \<Rightarrow> bytes \<Rightarrow> bool" where
  "kmsBefore hs ct pf =
     (hs = foreignHandles \<and> ct = abi_encode_uint64_pair 5000 0 \<and> pf = [1])"

definition at :: "address \<Rightarrow> nat \<Rightarrow> Env" where
  "at sender now =
     \<lparr>msg_sender = sender, block_timestamp = now, checkSignatures = kmsBefore\<rparr>"

text \<open>Alice creates market 0 at time 1000 (betting until 4600, resolution from 8200)
  and stakes 1000 on Yes; Bob stakes 2000 on No.\<close>

definition s_created :: Contract where
  "s_created =
     transact (at 2 1000) (CreateMarket ''Will it rain tomorrow?'' 3600 3600 4 [] []) deployed"

definition s_alice :: Contract where
  "s_alice = transact (at 2 2000) (PlaceBet 0 (enc64 1 1000) (encBool 2 True) True) s_created"

definition s_open :: Contract where
  "s_open = transact (at 3 2000) (PlaceBet 0 (enc64 3 2000) (encBool 4 False) True) s_alice"

text \<open>Carol locks the market after the deadline and the resolver requests
  resolution.\<close>

definition s_locked :: Contract where
  "s_locked = transact (at 5 5000) (LockMarket 0) s_open"

definition s_resolving :: Contract where
  "s_resolving = transact (at 4 9000) (RequestResolution 0) s_locked"

text \<open>
  After the request, the service has also signed the decryption of the market's own
  two pool totals, to 1000 and 2000, under the proof \<open>[2]\<close>. \<open>after sender now\<close> is a
  call in that period.
\<close>

definition marketHandles :: "handle list" where
  "marketHandles =
     [FHE_toBytes32 (totalYesAmount (markets s_resolving 0)),
      FHE_toBytes32 (totalNoAmount (markets s_resolving 0))]"

definition kmsAfter :: "handle list \<Rightarrow> bytes \<Rightarrow> bytes \<Rightarrow> bool" where
  "kmsAfter hs ct pf =
     (kmsBefore hs ct pf \<or>
      (hs = marketHandles \<and> ct = abi_encode_uint64_pair 1000 2000 \<and> pf = [2]))"

definition after :: "address \<Rightarrow> nat \<Rightarrow> Env" where
  "after sender now =
     \<lparr>msg_sender = sender, block_timestamp = now, checkSignatures = kmsAfter\<rparr>"

text \<open>The outsider submits the signed decryption of the market's totals; the market
  is then resolved with the outcome not yet set.\<close>

definition s_settled :: Contract where
  "s_settled =
     transact (after 6 9100)
       (SubmitDecryptedTotals 0 marketHandles (abi_encode_uint64_pair 1000 2000) [2])
       s_resolving"

text \<open>The resolver sets the outcome to Yes (1), respectively to Invalid (3).\<close>

definition s_yes :: Contract where
  "s_yes = transact (after 4 9200) (SetResolution 0 1) s_settled"

definition s_invalid :: Contract where
  "s_invalid = transact (after 4 9200) (SetResolution 0 3) s_settled"

section \<open>Evaluation and inversion lemmas\<close>

lemmas model_defs =
  transact_def createMarket_def placeBet_def lockMarket_def requestResolution_def
  submitDecryptedTotals_def setResolution_def claimWinnings_def
  validateMarketParams_def initializeMarket_def nonReentrant_def marketExists_def
  onlyMarketState_def onlyBeforeDeadline_def onlyAfterDeadline_def onlyAfterResolutionTime_def
  onlyResolved_def onlyResolver_def isAuthorizedResolver_def markClaimed_def
  updatePosition_def updateMarketTotals_def MarketLib_lockMarket_def markResolved_def
  Resolvable_submitDecryptedTotals_def and_then_def FHE_fromExternal_def
  balanceOf_def transferFromEncrypted_def transferEncrypted_def token_move_def
  FHE_add_def FHE_sub_def FHE_select_def FHE_le_def FHE_and_def FHE_asEuint64_def FHE_asEbool_def
  FHE_toBytes32_def Outcome_of_uint8_def
  zeroMarket_def zeroPosition_def zeroEuint64_def zeroEbool_def Let_def

lemmas payout_defs =
  calculatePayout_def calculateWinningPayout_def calculateMarketFee_def prizePool_def
  settledMarket_def positionOf_def zeroMarket_def enc64_def and_then_def
  checked_add_def checked_mul_def checked_sub_def FHE_div_def FHE_mul_def FHE_add_def
  FHE_asEuint64_def FHE_asEbool_def FEE_BASIS_POINTS_def BASIS_POINTS_DENOMINATOR_def Let_def

lemma abi_roundtrip_5000: "abi_decode_uint64_pair (abi_encode_uint64_pair 5000 0) = Inr (5000, 0)"
  by (simp add: abi_decode_uint64_pair_def abi_encode_uint64_pair_def be_bytes32_def be_nat_def
      upt_rec)

lemma abi_roundtrip_1000_2000:
  "abi_decode_uint64_pair (abi_encode_uint64_pair 1000 2000) = Inr (1000, 2000)"
  by (simp add: abi_decode_uint64_pair_def abi_encode_uint64_pair_def be_bytes32_def be_nat_def
      upt_rec)

lemma abi_encodings_differ: "abi_encode_uint64_pair 1000 2000 \<noteq> abi_encode_uint64_pair 5000 0"
  by (simp add: abi_encode_uint64_pair_def be_bytes32_def upt_rec)

text \<open>The states of the scenario, one transaction after the other.\<close>

lemmas env_defs =
  at_def after_def kmsBefore_def kmsAfter_def foreignHandles_def enc64_def encBool_def

lemma created_state:
  "marketCount s_created = 1"
  "self s_created = 100"
  "owner s_created = 1"
  "reentrancyEntered s_created = False"
  "state (markets s_created 0) = Open"
  "resolvedOutcome (markets s_created 0) = NotSet"
  "bettingDeadline (markets s_created 0) = 4600"
  "resolutionTime (markets s_created 0) = 8200"
  "resolver (markets s_created 0) = 4"
  "plain (totalYesAmount (markets s_created 0)) = 0"
  "plain (totalNoAmount (markets s_created 0)) = 0"
  "claimed (positions s_created 0 u) = False"
  "plain (yesAmount (positions s_created 0 u)) = 0"
  "plain (noAmount (positions s_created 0 u)) = 0"
  "plain (balances (token s_created) 100) = 0"
  "plain (balances (token s_created) 2) = 5000"
  "plain (balances (token s_created) 3) = 5000"
  "plain (balances (token s_created) 5) = 1000"
  "plain (allowances (token s_created) 2 100) = 5000"
  "plain (allowances (token s_created) 3 100) = 5000"
  "plain (allowances (token s_created) 5 100) = 400"
  by (simp_all add: s_created_def deployed_def deploy_def token0_def env_defs model_defs)

lemma alice_state:
  "marketCount s_alice = 1"
  "self s_alice = 100"
  "owner s_alice = 1"
  "reentrancyEntered s_alice = False"
  "state (markets s_alice 0) = Open"
  "resolvedOutcome (markets s_alice 0) = NotSet"
  "bettingDeadline (markets s_alice 0) = 4600"
  "resolutionTime (markets s_alice 0) = 8200"
  "resolver (markets s_alice 0) = 4"
  "plain (totalYesAmount (markets s_alice 0)) = 1000"
  "plain (totalNoAmount (markets s_alice 0)) = 0"
  "claimed (positions s_alice 0 u) = False"
  "plain (yesAmount (positions s_alice 0 2)) = 1000"
  "plain (noAmount (positions s_alice 0 2)) = 0"
  "plain (yesAmount (positions s_alice 0 3)) = 0"
  "plain (noAmount (positions s_alice 0 3)) = 0"
  "plain (yesAmount (positions s_alice 0 5)) = 0"
  "plain (noAmount (positions s_alice 0 5)) = 0"
  "plain (balances (token s_alice) 100) = 1000"
  "plain (balances (token s_alice) 2) = 4000"
  "plain (balances (token s_alice) 3) = 5000"
  "plain (balances (token s_alice) 5) = 1000"
  "plain (allowances (token s_alice) 3 100) = 5000"
  "plain (allowances (token s_alice) 5 100) = 400"
  by (simp_all add: s_alice_def created_state env_defs model_defs)

lemma open_state:
  "marketCount s_open = 1"
  "self s_open = 100"
  "owner s_open = 1"
  "reentrancyEntered s_open = False"
  "state (markets s_open 0) = Open"
  "resolvedOutcome (markets s_open 0) = NotSet"
  "bettingDeadline (markets s_open 0) = 4600"
  "resolutionTime (markets s_open 0) = 8200"
  "resolver (markets s_open 0) = 4"
  "plain (totalYesAmount (markets s_open 0)) = 1000"
  "plain (totalNoAmount (markets s_open 0)) = 2000"
  "hdl (totalYesAmount (markets s_open 0)) \<noteq> Input 77"
  "claimed (positions s_open 0 u) = False"
  "plain (yesAmount (positions s_open 0 2)) = 1000"
  "plain (noAmount (positions s_open 0 2)) = 0"
  "plain (yesAmount (positions s_open 0 3)) = 0"
  "plain (noAmount (positions s_open 0 3)) = 2000"
  "plain (yesAmount (positions s_open 0 5)) = 0"
  "plain (noAmount (positions s_open 0 5)) = 0"
  "plain (balances (token s_open) 100) = 3000"
  "plain (balances (token s_open) 2) = 4000"
  "plain (balances (token s_open) 3) = 3000"
  "plain (balances (token s_open) 5) = 1000"
  "plain (allowances (token s_open) 5 100) = 400"
  by (simp_all add: s_open_def alice_state env_defs model_defs)

lemmas scenario_simps =
  s_locked_def s_resolving_def s_settled_def s_yes_def s_invalid_def open_state env_defs
  abi_roundtrip_1000_2000 abi_roundtrip_5000 abi_encodings_differ

lemma handles_differ: "marketHandles \<noteq> foreignHandles"
  by (simp add: marketHandles_def scenario_simps model_defs)

lemma lockMarket_Inr:
  "lockMarket env m s = Inr s' \<longleftrightarrow>
     m < marketCount s \<and> state (markets s m) = Open \<and>
     bettingDeadline (markets s m) \<le> block_timestamp env \<and>
     s' = s\<lparr>markets := (markets s)(m := (markets s m)\<lparr>state := Locked\<rparr>)\<rparr>"
  by (auto simp: lockMarket_def marketExists_def onlyMarketState_def onlyAfterDeadline_def
      MarketLib_lockMarket_def)

lemma requestResolution_Inr:
  "requestResolution env m s = Inr s' \<longleftrightarrow>
     m < marketCount s \<and> state (markets s m) = Locked \<and>
     resolutionTime (markets s m) \<le> block_timestamp env \<and>
     (resolver (markets s m) = msg_sender env \<or> msg_sender env = owner s) \<and>
     s' = s\<lparr>markets := (markets s)(m := (markets s m)\<lparr>state := Resolving\<rparr>)\<rparr>"
  by (auto simp: requestResolution_def marketExists_def onlyMarketState_def
      onlyAfterResolutionTime_def onlyResolver_def isAuthorizedResolver_def)

lemma submitDecryptedTotals_Inr:
  "submitDecryptedTotals env m hs ct pf s = Inr s' \<longleftrightarrow>
     m < marketCount s \<and> state (markets s m) = Resolving \<and>
     checkSignatures env hs ct pf \<and>
     (\<exists>y n. abi_decode_uint64_pair ct = Inr (y, n) \<and>
        s' = s\<lparr>decryptedYesTotal := (decryptedYesTotal s)(m := y),
               decryptedNoTotal := (decryptedNoTotal s)(m := n),
               decryptionCompleted := (decryptionCompleted s)(m := True),
               markets := (markets s)(m := markResolved (markets s m) NotSet y n)\<rparr>)"
  by (auto simp: submitDecryptedTotals_def marketExists_def Resolvable_submitDecryptedTotals_def
      and_then_def split: sum.splits)

lemma setResolution_Inr:
  "setResolution env m k s = Inr s' \<longleftrightarrow>
     m < marketCount s \<and> state (markets s m) = Resolved \<and>
     (resolver (markets s m) = msg_sender env \<or> msg_sender env = owner s) \<and>
     (\<exists>outc. Outcome_of_uint8 k = Inr outc \<and> (outc = Yes \<or> outc = No \<or> outc = Invalid) \<and>
        s' = s\<lparr>markets := (markets s)(m := (markets s m)\<lparr>resolvedOutcome := outc\<rparr>)\<rparr>)"
  by (auto simp: setResolution_def marketExists_def onlyResolved_def
      onlyResolver_def isAuthorizedResolver_def and_then_def split: sum.splits)

lemma createMarket_Inr:
  "createMarket env q bd rd res img cat s = Inr s' \<Longrightarrow>
     marketCount s' = Suc (marketCount s) \<and>
     (\<forall>m. m \<noteq> marketCount s \<longrightarrow> markets s' m = markets s m) \<and>
     positions s' = positions s \<and> reentrancyEntered s' = reentrancyEntered s \<and>
     token s' = token s"
  by (auto simp: createMarket_def validateMarketParams_def Let_def split: if_splits)

lemma calculatePayout_claimed [simp]:
  "calculatePayout (p\<lparr>claimed := c\<rparr>) market k = calculatePayout p market k"
  by (simp add: calculatePayout_def)

lemma claimWinnings_Inr:
  "claimWinnings env m s = Inr s' \<longleftrightarrow>
     \<not> reentrancyEntered s \<and> m < marketCount s \<and> state (markets s m) = Resolved \<and>
     \<not> claimed (positions s m (msg_sender env)) \<and>
     (\<exists>payout. calculatePayout (positions s m (msg_sender env)) (markets s m)
          (uint8_of_Outcome (resolvedOutcome (markets s m))) = Inr payout \<and>
        s' = (markClaimed m (msg_sender env) s)
               \<lparr>token := transferEncrypted (token s) (self s) (msg_sender env) payout\<rparr>)"
  apply (cases s)
  apply (auto simp: claimWinnings_def nonReentrant_def marketExists_def onlyResolved_def
      markClaimed_def and_then_def Let_def split: sum.splits if_splits)
  done

lemma placeBet_Inr:
  "placeBet env m amt outc pf s = Inr s' \<longleftrightarrow>
     \<not> reentrancyEntered s \<and> m < marketCount s \<and> state (markets s m) = Open \<and>
     block_timestamp env < bettingDeadline (markets s m) \<and> pf \<and>
     (let tok = transferFromEncrypted (token s) (self s) (msg_sender env) (self s) amt;
          actualAmount = FHE_sub (balanceOf tok (self s)) (balanceOf (token s) (self s))
      in s' = s\<lparr>token := tok,
                positions := (positions s)(m := (positions s m)(msg_sender env :=
                   updatePosition (positions s m (msg_sender env)) actualAmount outc
                     (msg_sender env))),
                markets := (markets s)(m := updateMarketTotals (markets s m) actualAmount outc)\<rparr>)"
  apply (cases s)
  apply (auto simp: placeBet_def nonReentrant_def marketExists_def onlyMarketState_def
      onlyBeforeDeadline_def FHE_fromExternal_def and_then_def Let_def split: sum.splits if_splits)
  done

lemma transact_cases:
  "(\<exists>e. call env c s = Inl e \<and> transact env c s = s) \<or> call env c s = Inr (transact env c s)"
  by (cases "call env c s") (simp_all add: transact_def)

lemma transact_failed: "call env c s = Inl e \<Longrightarrow> transact env c s = s"
  by (simp add: transact_def)

lemma transact_ok: "call env c s = Inr s' \<Longrightarrow> transact env c s = s'"
  by (simp add: transact_def)

lemma run_append: "run s (xs @ ys) = run (run s xs) ys"
  by (induction xs arbitrary: s) auto

text \<open>What one successful call does to an existing market's state.\<close>

lemma call_state_change:
  assumes "call env c s = Inr s'" and "m < marketCount s"
    and "state (markets s' m) \<noteq> state (markets s m)"
  shows "(c = LockMarket m \<and> state (markets s m) = Open \<and> state (markets s' m) = Locked \<and>
            bettingDeadline (markets s m) \<le> block_timestamp env)
       \<or> (c = RequestResolution m \<and> state (markets s m) = Locked \<and>
            state (markets s' m) = Resolving \<and>
            resolutionTime (markets s m) \<le> block_timestamp env)
       \<or> (\<exists>hs ct pf. c = SubmitDecryptedTotals m hs ct pf \<and> state (markets s m) = Resolving \<and>
            state (markets s' m) = Resolved \<and> checkSignatures env hs ct pf)"
proof (cases c)
  case (CreateMarket q bd rd res img cat)
  with assms show ?thesis by (auto dest!: createMarket_Inr)
next
  case (PlaceBet mm a outc pf)
  with assms show ?thesis
    by (auto simp: placeBet_Inr Let_def updateMarketTotals_def split: if_splits)
next
  case (LockMarket mm)
  with assms show ?thesis by (auto simp: lockMarket_Inr split: if_splits)
next
  case (RequestResolution mm)
  with assms show ?thesis by (auto simp: requestResolution_Inr split: if_splits)
next
  case (SubmitDecryptedTotals mm hs ct pf)
  with assms show ?thesis
    by (auto simp: submitDecryptedTotals_Inr markResolved_def split: if_splits)
next
  case (SetResolution mm k)
  with assms show ?thesis by (auto simp: setResolution_Inr split: if_splits)
next
  case (ClaimWinnings mm)
  with assms show ?thesis by (auto simp: claimWinnings_Inr markClaimed_def split: if_splits)
qed

lemma call_marketCount: "call env c s = Inr s' \<Longrightarrow> marketCount s \<le> marketCount s'"
  by (cases c)
     (auto simp: placeBet_Inr lockMarket_Inr requestResolution_Inr submitDecryptedTotals_Inr
        setResolution_Inr claimWinnings_Inr markClaimed_def Let_def dest!: createMarket_Inr)

lemma transact_marketCount: "marketCount s \<le> marketCount (transact env c s)"
  using transact_cases [of env c s] call_marketCount [of env c s] by auto

lemma transact_step:
  assumes "m < marketCount s"
  shows "lifecycle_step (state (markets s m)) (state (markets (transact env c s) m))"
proof (cases "state (markets (transact env c s) m) = state (markets s m)")
  case True
  then show ?thesis by (simp add: lifecycle_step_def)
next
  case False
  then have "call env c s = Inr (transact env c s)"
    using transact_cases [of env c s] by auto
  from call_state_change [OF this assms False] show ?thesis
    by (auto simp: lifecycle_step_def)
qed

lemma run_rank:
  "m < marketCount s \<Longrightarrow> rank (state (markets s m)) \<le> rank (state (markets (run s trace) m))"
proof (induction trace arbitrary: s)
  case Nil
  then show ?case by simp
next
  case (Cons x trace)
  obtain env c where x: "x = (env, c)" by (cases x)
  have a: "m < marketCount (transact env c s)"
    using Cons.prems transact_marketCount [of s env c] by simp
  have "rank (state (markets s m)) \<le> rank (state (markets (transact env c s) m))"
    using transact_step [OF Cons.prems, of env c] by (auto simp: lifecycle_step_def)
  with Cons.IH [OF a] show ?case by (simp add: x)
qed

section \<open>Safe multiplication (\<open>FHEMath.safeMul\<close>)\<close>

lemma safeMul_flag_constant: "plain (snd (safeMul a b)) = False"
  by (simp add: safeMul_def FHE_asEbool_def Let_def)

text \<open>
  Claim C10: \<open>safeMul\<close> returns an overflow flag that is true exactly when the product
  of its operands exceeds the 64-bit maximum. The code does not do this: the flag is
  the constant false. For the operands \<open>2 ^ 32\<close> and \<open>2 ^ 32\<close> the product is
  \<open>2 ^ 64\<close>, above the maximum \<open>2 ^ 64 - 1\<close>; \<open>safeMul\<close> returns the wrapped product 0
  and the flag false.
\<close>

theorem safeMul_overflow_not_flagged:
  "safeMul (enc64 1 (2 ^ 32)) (enc64 2 (2 ^ 32)) =
     (\<lparr>hdl = Computed FheMul [Input 1, Input 2], plain = 0\<rparr>,
      \<lparr>hdl = Trivial 0, plain = False\<rparr>)
   \<and> 2 ^ 64 - 1 < unat (plain (enc64 1 (2 ^ 32))) * unat (plain (enc64 2 (2 ^ 32)))"
  by (simp add: safeMul_def FHE_mul_def FHE_asEbool_def enc64_def)

section \<open>Winning payouts (\<open>PayoutCalculator\<close>)\<close>

lemma payout_example_1000:
  "calculatePayout (positionOf 1000 0) (settledMarket 1500 2000) 1 =
     Inr \<lparr>hdl = Computed FheAdd [Input 1,
                 Computed FheDiv [Computed FheMul [Input 1, Trivial 2000], Scalar 1500]],
          plain = 2333\<rparr>"
  by (simp add: payout_defs)

lemma payout_example_500:
  "calculatePayout (positionOf 500 0) (settledMarket 1500 2000) 1 =
     Inr \<lparr>hdl = Computed FheAdd [Input 1,
                 Computed FheDiv [Computed FheMul [Input 1, Trivial 2000], Scalar 1500]],
          plain = 1166\<rparr>"
  by (simp add: payout_defs)

lemma payout_zero_pool:
  "totalsDecrypted market \<Longrightarrow>
   decryptedYesAmount market = 0 \<or> decryptedNoAmount market = 0 \<Longrightarrow>
   calculateWinningPayout userPosition market isYesWinner = Inr userPosition"
  by (auto simp: calculateWinningPayout_def)

lemma unat_add_no_overflow:
  "unat a + unat b < 2 ^ 64 \<Longrightarrow> unat (a + b :: uint64) = unat a + unat b"
  by (simp add: unat_add_lem [THEN iffD1])

lemma unat_mult_no_overflow:
  "unat a * unat b < 2 ^ 64 \<Longrightarrow> unat (a * b :: uint64) = unat a * unat b"
  by (simp add: unat_mult_lem [THEN iffD1])

lemma payout_without_overflow:
  assumes "totalsDecrypted market"
    and "winningPool = (if isYesWinner then decryptedYesAmount market else decryptedNoAmount market)"
    and "losingPool = (if isYesWinner then decryptedNoAmount market else decryptedYesAmount market)"
    and "winningPool \<noteq> 0" and "losingPool \<noteq> 0"
    and "(unat winningPool + unat losingPool) * 200 < 2 ^ 64"
    and "unat (plain userPosition) * unat losingPool < 2 ^ 64"
    and "unat (plain userPosition) + unat (plain userPosition) * unat losingPool div unat winningPool < 2 ^ 64"
  shows "\<exists>payout. calculateWinningPayout userPosition market isYesWinner = Inr payout \<and>
           unat (plain payout) =
             unat (plain userPosition) + unat (plain userPosition) * unat losingPool div unat winningPool"
proof -
  let ?u = "plain userPosition"
  have W: "unat winningPool \<noteq> 0" and L: "unat losingPool \<noteq> 0"
    using assms(4,5) by (simp_all add: unat_eq_0)
  have sum: "unat winningPool + unat losingPool < 2 ^ 64"
    using assms(6) by simp
  then have tot: "unat (winningPool + losingPool) = unat winningPool + unat losingPool"
    by (rule unat_add_no_overflow)
  have mul: "unat (winningPool + losingPool) * unat (200 :: uint64) < 2 ^ 64"
    using assms(6) tot by simp
  have fee: "unat ((winningPool + losingPool) * 200 div 10000) \<le> unat (winningPool + losingPool)"
  proof -
    have "unat ((winningPool + losingPool) * 200) = unat (winningPool + losingPool) * unat (200 :: uint64)"
      using mul by (rule unat_mult_no_overflow)
    then have "unat ((winningPool + losingPool) * 200 div 10000) =
        unat (winningPool + losingPool) * 200 div 10000"
      by (simp only: unat_div) simp
    then show ?thesis by simp
  qed
  have prod: "unat (?u * losingPool) = unat ?u * unat losingPool"
    using assms(7) by (rule unat_mult_no_overflow)
  have q: "unat (?u * losingPool div winningPool) = unat ?u * unat losingPool div unat winningPool"
    by (simp add: unat_div prod)
  have pay: "unat (?u + ?u * losingPool div winningPool) =
      unat ?u + unat ?u * unat losingPool div unat winningPool"
    using assms(8) unat_add_no_overflow [of ?u "?u * losingPool div winningPool"] by (simp only: q)
  show ?thesis
    using assms(1-5) sum mul fee pay
    by (auto simp: calculateWinningPayout_def and_then_def checked_add_def checked_mul_def
        checked_sub_def FHE_div_def FHE_mul_def FHE_add_def FHE_asEuint64_def
        FEE_BASIS_POINTS_def BASIS_POINTS_DENOMINATOR_def Let_def)
qed

text \<open>
  Claim C3: the payout of a winning stake is the stake when a pool is zero, and
  otherwise \<open>stake + floor(stake * losingPool / winningPool)\<close>. The lemmas above
  confirm the two examples of the claim, the zero-pool case, and the formula whenever
  no 64-bit operation overflows. The code departs from the formula when the encrypted
  product \<open>stake * losingPool\<close> exceeds 64 bits: with pools of 10000000000 units on each
  side (10000 tokens of 6 decimals) and a stake of 10000000000 on the winning side, the
  formula gives 20000000000, and the code computes 10776627963.
\<close>

theorem payout_product_wraps:
  "calculatePayout (positionOf 10000000000 0) (settledMarket 10000000000 10000000000) 1 =
     Inr \<lparr>hdl = Computed FheAdd [Input 1,
                 Computed FheDiv [Computed FheMul [Input 1, Trivial 10000000000],
                                  Scalar 10000000000]],
          plain = 10776627963\<rparr>
   \<and> (10000000000 :: nat) + 10000000000 * 10000000000 div 10000000000 = 20000000000"
  by (simp add: payout_defs)

section \<open>Lifecycle of a market\<close>

lemma lockMarket_wrong_state:
  "m < marketCount s \<Longrightarrow> state (markets s m) \<noteq> Open \<Longrightarrow> lockMarket env m s = Inl InvalidState"
  by (simp add: lockMarket_def marketExists_def onlyMarketState_def)

lemma requestResolution_wrong_state:
  "m < marketCount s \<Longrightarrow> state (markets s m) \<noteq> Locked \<Longrightarrow>
   requestResolution env m s = Inl InvalidState"
  by (simp add: requestResolution_def marketExists_def onlyMarketState_def)

lemma submitDecryptedTotals_wrong_state:
  "m < marketCount s \<Longrightarrow> state (markets s m) \<noteq> Resolving \<Longrightarrow>
   submitDecryptedTotals env m hs ct pf s = Inl (Revert ''Market not resolving'')"
  by (simp add: submitDecryptedTotals_def marketExists_def)

lemma lockMarket_after_deadline:
  "m < marketCount s \<Longrightarrow> state (markets s m) = Open \<Longrightarrow>
   bettingDeadline (markets s m) \<le> block_timestamp env \<Longrightarrow>
   state (markets (transact env (LockMarket m) s) m) = Locked"
  by (simp add: transact_def lockMarket_def marketExists_def onlyMarketState_def
      onlyAfterDeadline_def MarketLib_lockMarket_def)

lemma requestResolution_after_time:
  "m < marketCount s \<Longrightarrow> state (markets s m) = Locked \<Longrightarrow>
   resolutionTime (markets s m) \<le> block_timestamp env \<Longrightarrow>
   resolver (markets s m) = msg_sender env \<or> msg_sender env = owner s \<Longrightarrow>
   state (markets (transact env (RequestResolution m) s) m) = Resolving"
  by (auto simp: transact_def requestResolution_def marketExists_def onlyMarketState_def
      onlyAfterResolutionTime_def onlyResolver_def isAuthorizedResolver_def)

lemma submitDecryptedTotals_verified:
  "m < marketCount s \<Longrightarrow> state (markets s m) = Resolving \<Longrightarrow>
   checkSignatures env hs ct pf \<Longrightarrow> abi_decode_uint64_pair ct = Inr (y, n) \<Longrightarrow>
   state (markets (transact env (SubmitDecryptedTotals m hs ct pf) s) m) = Resolved"
  by (simp add: transact_def submitDecryptedTotals_def marketExists_def
      Resolvable_submitDecryptedTotals_def and_then_def markResolved_def)

text \<open>
  Claim C2: the lifecycle state of a market only moves along Open, Locked, Resolving,
  Resolved, with no skip and no cycle. For an existing market \<open>m\<close>: one transaction
  leaves its state or moves it to the next one, and along any sequence of transactions
  the state never goes back. The state changes only by \<open>lockMarket\<close> from Open, at or
  after the betting deadline; by \<open>requestResolution\<close> from Locked, at or after the
  resolution time; and by a \<open>submitDecryptedTotals\<close> whose proof verifies, from
  Resolving; and under these conditions each of the three does move the state. Called
  in another state, \<open>lockMarket\<close> and \<open>requestResolution\<close> revert with \<open>InvalidState\<close>
  and \<open>submitDecryptedTotals\<close> reverts with the message \<open>Market not resolving\<close>, and
  the contract is left as it was.
\<close>

theorem lifecycle_monotone:
  assumes "m < marketCount s"
  shows "lifecycle_step (state (markets s m)) (state (markets (transact env c s) m))
     \<and> rank (state (markets s m)) \<le> rank (state (markets (run s trace) m))
     \<and> (state (markets (transact env c s) m) \<noteq> state (markets s m) \<longrightarrow>
          (c = LockMarket m \<and> state (markets s m) = Open \<and>
             bettingDeadline (markets s m) \<le> block_timestamp env)
        \<or> (c = RequestResolution m \<and> state (markets s m) = Locked \<and>
             resolutionTime (markets s m) \<le> block_timestamp env)
        \<or> (\<exists>hs ct pf. c = SubmitDecryptedTotals m hs ct pf \<and>
             state (markets s m) = Resolving \<and> checkSignatures env hs ct pf))
     \<and> (state (markets s m) = Open \<and> bettingDeadline (markets s m) \<le> block_timestamp env \<longrightarrow>
          state (markets (transact env (LockMarket m) s) m) = Locked)
     \<and> (state (markets s m) = Locked \<and> resolutionTime (markets s m) \<le> block_timestamp env \<and>
          (resolver (markets s m) = msg_sender env \<or> msg_sender env = owner s) \<longrightarrow>
          state (markets (transact env (RequestResolution m) s) m) = Resolving)
     \<and> (state (markets s m) = Resolving \<and> checkSignatures env hs ct pf \<and>
          abi_decode_uint64_pair ct = Inr (y, n) \<longrightarrow>
          state (markets (transact env (SubmitDecryptedTotals m hs ct pf) s) m) = Resolved)
     \<and> (state (markets s m) \<noteq> Open \<longrightarrow>
          lockMarket env m s = Inl InvalidState \<and> transact env (LockMarket m) s = s)
     \<and> (state (markets s m) \<noteq> Locked \<longrightarrow>
          requestResolution env m s = Inl InvalidState \<and>
          transact env (RequestResolution m) s = s)
     \<and> (state (markets s m) \<noteq> Resolving \<longrightarrow>
          submitDecryptedTotals env m hs ct pf s = Inl (Revert ''Market not resolving'') \<and>
          transact env (SubmitDecryptedTotals m hs ct pf) s = s)"
proof -
  have step: "lifecycle_step (state (markets s m)) (state (markets (transact env c s) m))"
    by (rule transact_step [OF assms])
  have mono: "rank (state (markets s m)) \<le> rank (state (markets (run s trace) m))"
    by (rule run_rank [OF assms])
  have change: "state (markets (transact env c s) m) \<noteq> state (markets s m) \<longrightarrow>
          (c = LockMarket m \<and> state (markets s m) = Open \<and>
             bettingDeadline (markets s m) \<le> block_timestamp env)
        \<or> (c = RequestResolution m \<and> state (markets s m) = Locked \<and>
             resolutionTime (markets s m) \<le> block_timestamp env)
        \<or> (\<exists>hs ct pf. c = SubmitDecryptedTotals m hs ct pf \<and>
             state (markets s m) = Resolving \<and> checkSignatures env hs ct pf)"
  proof
    assume ne: "state (markets (transact env c s) m) \<noteq> state (markets s m)"
    then have ok: "call env c s = Inr (transact env c s)"
      using transact_cases [of env c s] by auto
    from call_state_change [OF ok assms ne]
    show "(c = LockMarket m \<and> state (markets s m) = Open \<and>
             bettingDeadline (markets s m) \<le> block_timestamp env)
        \<or> (c = RequestResolution m \<and> state (markets s m) = Locked \<and>
             resolutionTime (markets s m) \<le> block_timestamp env)
        \<or> (\<exists>hs ct pf. c = SubmitDecryptedTotals m hs ct pf \<and>
             state (markets s m) = Resolving \<and> checkSignatures env hs ct pf)"
      by blast
  qed
  have lock: "state (markets s m) = Open \<and> bettingDeadline (markets s m) \<le> block_timestamp env \<longrightarrow>
          state (markets (transact env (LockMarket m) s) m) = Locked"
    using lockMarket_after_deadline [OF assms] by blast
  have req: "state (markets s m) = Locked \<and> resolutionTime (markets s m) \<le> block_timestamp env \<and>
          (resolver (markets s m) = msg_sender env \<or> msg_sender env = owner s) \<longrightarrow>
          state (markets (transact env (RequestResolution m) s) m) = Resolving"
    using requestResolution_after_time [OF assms] by blast
  have sub: "state (markets s m) = Resolving \<and> checkSignatures env hs ct pf \<and>
          abi_decode_uint64_pair ct = Inr (y, n) \<longrightarrow>
          state (markets (transact env (SubmitDecryptedTotals m hs ct pf) s) m) = Resolved"
    using submitDecryptedTotals_verified [OF assms] by blast
  have nlock: "state (markets s m) \<noteq> Open \<longrightarrow>
          lockMarket env m s = Inl InvalidState \<and> transact env (LockMarket m) s = s"
    using lockMarket_wrong_state [OF assms, of env] by (simp add: transact_def)
  have nreq: "state (markets s m) \<noteq> Locked \<longrightarrow>
          requestResolution env m s = Inl InvalidState \<and>
          transact env (RequestResolution m) s = s"
    using requestResolution_wrong_state [OF assms, of env] by (simp add: transact_def)
  have nsub: "state (markets s m) \<noteq> Resolving \<longrightarrow>
          submitDecryptedTotals env m hs ct pf s = Inl (Revert ''Market not resolving'') \<and>
          transact env (SubmitDecryptedTotals m hs ct pf) s = s"
    using submitDecryptedTotals_wrong_state [OF assms, of env hs ct pf] by (simp add: transact_def)
  from step mono change lock req sub nlock nreq nsub show ?thesis by blast
qed

text \<open>The theorem at market 0 of the scenario, while it is Open and while it is
  Resolving.\<close>

theorem lifecycle_monotone_witness:
  "0 < marketCount s_open
   \<and> state (markets s_open 0) = Open
   \<and> state (markets (transact (at 5 5000) (LockMarket 0) s_open) 0) = Locked
   \<and> requestResolution (at 4 9000) 0 s_open = Inl InvalidState
   \<and> transact (at 4 9000) (RequestResolution 0) s_open = s_open
   \<and> submitDecryptedTotals (at 6 9100) 0 foreignHandles (abi_encode_uint64_pair 5000 0) [1]
        s_open = Inl (Revert ''Market not resolving'')
   \<and> 0 < marketCount s_resolving
   \<and> state (markets s_resolving 0) = Resolving
   \<and> lockMarket (at 5 9050) 0 s_resolving = Inl InvalidState
   \<and> transact (at 5 9050) (LockMarket 0) s_resolving = s_resolving
   \<and> state (markets (transact (after 6 9100)
        (SubmitDecryptedTotals 0 marketHandles (abi_encode_uint64_pair 1000 2000) [2])
        s_resolving) 0) = Resolved"
proof -
  have c1: "0 < marketCount s_open"
    by (simp add: scenario_simps model_defs)
  have s1: "state (markets s_open 0) = Open"
    by (simp add: scenario_simps model_defs)
  have d1: "bettingDeadline (markets s_open 0) \<le> block_timestamp (at 5 5000)"
    by (simp add: scenario_simps model_defs)
  have c2: "0 < marketCount s_resolving"
    by (simp add: scenario_simps model_defs)
  have s2: "state (markets s_resolving 0) = Resolving"
    by (simp add: scenario_simps model_defs)
  have k: "checkSignatures (after 6 9100) marketHandles (abi_encode_uint64_pair 1000 2000) [2]"
    by (simp add: after_def kmsAfter_def)
  note a = lifecycle_monotone [OF c1, of "at 5 5000" "LockMarket 0" "[]"
      foreignHandles "abi_encode_uint64_pair 5000 0" "[1]" 5000 0]
  note b = lifecycle_monotone [OF c1, of "at 4 9000" "LockMarket 0" "[]"
      foreignHandles "abi_encode_uint64_pair 5000 0" "[1]" 5000 0]
  note c = lifecycle_monotone [OF c1, of "at 6 9100" "LockMarket 0" "[]"
      foreignHandles "abi_encode_uint64_pair 5000 0" "[1]" 5000 0]
  note d = lifecycle_monotone [OF c2, of "at 5 9050" "LockMarket 0" "[]"
      marketHandles "abi_encode_uint64_pair 1000 2000" "[2]" 1000 2000]
  note e = lifecycle_monotone [OF c2, of "after 6 9100" "LockMarket 0" "[]"
      marketHandles "abi_encode_uint64_pair 1000 2000" "[2]" 1000 2000]
  show ?thesis
    using a b c d e c1 s1 d1 c2 s2 k abi_roundtrip_1000_2000 by simp
qed

section \<open>Claiming\<close>

text \<open>Once a position of a resolved market is claimed, it stays claimed.\<close>

lemma call_keeps_claimed:
  assumes "call env c s = Inr s'"
    and "\<not> reentrancyEntered s" and "m < marketCount s"
    and "state (markets s m) = Resolved" and "claimed (positions s m u)"
  shows "\<not> reentrancyEntered s' \<and> m < marketCount s' \<and> state (markets s' m) = Resolved \<and>
         claimed (positions s' m u)"
proof (cases c)
  case (CreateMarket q bd rd res img cat)
  with assms show ?thesis by (auto dest!: createMarket_Inr)
next
  case (PlaceBet mm a outc pf)
  with assms show ?thesis
    by (auto simp: placeBet_Inr Let_def updateMarketTotals_def updatePosition_def split: if_splits)
next
  case (LockMarket mm)
  with assms show ?thesis by (auto simp: lockMarket_Inr split: if_splits)
next
  case (RequestResolution mm)
  with assms show ?thesis by (auto simp: requestResolution_Inr split: if_splits)
next
  case (SubmitDecryptedTotals mm hs ct pf)
  with assms show ?thesis
    by (auto simp: submitDecryptedTotals_Inr markResolved_def split: if_splits)
next
  case (SetResolution mm k)
  with assms show ?thesis by (auto simp: setResolution_Inr split: if_splits)
next
  case (ClaimWinnings mm)
  with assms show ?thesis by (auto simp: claimWinnings_Inr markClaimed_def split: if_splits)
qed

lemma run_keeps_claimed:
  "\<not> reentrancyEntered s \<Longrightarrow> m < marketCount s \<Longrightarrow> state (markets s m) = Resolved \<Longrightarrow>
   claimed (positions s m u) \<Longrightarrow>
   \<not> reentrancyEntered (run s trace) \<and> m < marketCount (run s trace) \<and>
   state (markets (run s trace) m) = Resolved \<and> claimed (positions (run s trace) m u)"
proof (induction trace arbitrary: s)
  case Nil
  then show ?case by simp
next
  case (Cons x trace)
  obtain env c where x: "x = (env, c)" by (cases x)
  have "\<not> reentrancyEntered (transact env c s) \<and> m < marketCount (transact env c s) \<and>
        state (markets (transact env c s) m) = Resolved \<and>
        claimed (positions (transact env c s) m u)"
    using transact_cases [of env c s] call_keeps_claimed [of env c s "transact env c s" m u]
      Cons.prems by auto
  then show ?case using Cons.IH [of "transact env c s"] by (simp add: x)
qed

lemma claimWinnings_claimed:
  "\<not> reentrancyEntered s \<Longrightarrow> m < marketCount s \<Longrightarrow> state (markets s m) = Resolved \<Longrightarrow>
   claimed (positions s m (msg_sender env)) \<Longrightarrow> claimWinnings env m s = Inl AlreadyClaimed"
  by (simp add: claimWinnings_def nonReentrant_def marketExists_def onlyResolved_def)

lemma claimWinnings_after:
  assumes "claimWinnings env m s = Inr s1"
  shows "\<not> reentrancyEntered s1 \<and> m < marketCount s1 \<and> state (markets s1 m) = Resolved \<and>
         claimed (positions s1 m (msg_sender env))"
  using assms by (auto simp: claimWinnings_Inr markClaimed_def)

text \<open>
  Claim C6: for every market and bettor at most one \<open>claimWinnings\<close> call succeeds.
  After a successful claim by a bettor on market \<open>m\<close>, and whatever transactions
  follow it, every further claim by the same bettor on \<open>m\<close> reverts with
  \<open>AlreadyClaimed\<close>; as a transaction it leaves the contract and the token as they
  were, so nothing is transferred.
\<close>

theorem claim_at_most_once:
  assumes "claimWinnings env m s = Inr s1" and "msg_sender env' = msg_sender env"
  shows "claimWinnings env' m (run s1 trace) = Inl AlreadyClaimed
       \<and> transact env' (ClaimWinnings m) (run s1 trace) = run s1 trace
       \<and> token (transact env' (ClaimWinnings m) (run s1 trace)) = token (run s1 trace)"
proof -
  from claimWinnings_after [OF assms(1)]
  have "\<not> reentrancyEntered (run s1 trace) \<and> m < marketCount (run s1 trace) \<and>
        state (markets (run s1 trace) m) = Resolved \<and>
        claimed (positions (run s1 trace) m (msg_sender env))"
    using run_keeps_claimed [of s1 m "msg_sender env" trace] by blast
  then have "claimWinnings env' m (run s1 trace) = Inl AlreadyClaimed"
    using claimWinnings_claimed [of "run s1 trace" m env'] assms(2) by simp
  then show ?thesis by (simp add: transact_def)
qed

text \<open>In the scenario with outcome Yes: Alice claims, Bob claims, and Alice's second
  claim is refused.\<close>

theorem claim_at_most_once_witness:
  "claimWinnings (after 2 9300) 0 s_yes =
     Inr (transact (after 2 9300) (ClaimWinnings 0) s_yes)
   \<and> msg_sender (after 2 9400) = msg_sender (after 2 9300)
   \<and> claimWinnings (after 2 9400) 0
        (run (transact (after 2 9300) (ClaimWinnings 0) s_yes)
           [(after 3 9350, ClaimWinnings 0)]) = Inl AlreadyClaimed
   \<and> transact (after 2 9400) (ClaimWinnings 0)
        (run (transact (after 2 9300) (ClaimWinnings 0) s_yes)
           [(after 3 9350, ClaimWinnings 0)]) =
      run (transact (after 2 9300) (ClaimWinnings 0) s_yes)
           [(after 3 9350, ClaimWinnings 0)]"
proof -
  have ok: "claimWinnings (after 2 9300) 0 s_yes =
     Inr (transact (after 2 9300) (ClaimWinnings 0) s_yes)"
    by (simp add: scenario_simps model_defs payout_defs)
  have same: "msg_sender (after 2 9400) = msg_sender (after 2 9300)"
    by (simp add: after_def)
  from claim_at_most_once [OF ok same, of "[(after 3 9350, ClaimWinnings 0)]"] ok same
  show ?thesis by blast
qed

text \<open>The token moves nothing when asked to transfer an encryption of zero.\<close>

lemma transferEncrypted_zero:
  "plain (balanceOf (transferEncrypted t sender recipient (FHE_asEuint64 0)) a) =
   plain (balanceOf t a)"
  by (simp add: transferEncrypted_def token_move_def balanceOf_def FHE_le_def FHE_select_def
      FHE_asEuint64_def FHE_add_def FHE_sub_def Let_def)

text \<open>
  Claim C9: once a verified submission of the totals has moved a market to Resolved,
  and while the outcome is still NotSet, \<open>claimWinnings\<close> succeeds for any bettor who
  has not claimed: the position is marked claimed, the payout is an encryption of zero,
  and that zero is what the token is asked to transfer (no balance changes). When the
  resolver then sets the outcome, and after any other transactions, the bettor's claim
  reverts with \<open>AlreadyClaimed\<close>.
\<close>

theorem claim_before_outcome_pays_zero:
  assumes "submitDecryptedTotals env0 m hs ct pf s = Inr s1"
    and "\<not> reentrancyEntered s"
    and "\<not> claimed (positions s m (msg_sender env1))"
    and "s2 = (markClaimed m (msg_sender env1) s1)
                \<lparr>token := transferEncrypted (token s1) (self s1) (msg_sender env1)
                            (FHE_asEuint64 0)\<rparr>"
    and "msg_sender env3 = msg_sender env1"
  shows "state (markets s1 m) = Resolved \<and> resolvedOutcome (markets s1 m) = NotSet
       \<and> calculatePayout (positions s1 m (msg_sender env1)) (markets s1 m)
            (uint8_of_Outcome (resolvedOutcome (markets s1 m))) = Inr (FHE_asEuint64 0)
       \<and> claimWinnings env1 m s1 = Inr s2
       \<and> claimed (positions s2 m (msg_sender env1))
       \<and> plain (balanceOf (token s2) a) = plain (balanceOf (token s1) a)
       \<and> (setResolution env2 m k s2 = Inr s3 \<longrightarrow> claimWinnings env3 m s3 = Inl AlreadyClaimed)
       \<and> claimWinnings env3 m (run s2 trace) = Inl AlreadyClaimed"
proof -
  from assms(1) obtain y n where
    s1: "s1 = s\<lparr>decryptedYesTotal := (decryptedYesTotal s)(m := y),
               decryptedNoTotal := (decryptedNoTotal s)(m := n),
               decryptionCompleted := (decryptionCompleted s)(m := True),
               markets := (markets s)(m := markResolved (markets s m) NotSet y n)\<rparr>"
    and ex: "m < marketCount s"
    by (auto simp: submitDecryptedTotals_Inr)
  have st: "state (markets s1 m) = Resolved" and oc: "resolvedOutcome (markets s1 m) = NotSet"
    by (simp_all add: s1 markResolved_def)
  have pay: "calculatePayout (positions s1 m (msg_sender env1)) (markets s1 m)
            (uint8_of_Outcome (resolvedOutcome (markets s1 m))) = Inr (FHE_asEuint64 0)"
    by (simp add: oc calculatePayout_def)
  have pre: "\<not> reentrancyEntered s1" "m < marketCount s1"
    "\<not> claimed (positions s1 m (msg_sender env1))"
    using assms(2,3) ex by (simp_all add: s1)
  have claim: "claimWinnings env1 m s1 = Inr s2"
    using pre st pay by (simp add: claimWinnings_Inr assms(4))
  have inv: "\<not> reentrancyEntered s2 \<and> m < marketCount s2 \<and> state (markets s2 m) = Resolved \<and>
         claimed (positions s2 m (msg_sender env1))"
    by (rule claimWinnings_after [OF claim])
  have bal: "plain (balanceOf (token s2) a) = plain (balanceOf (token s1) a)"
    by (simp add: assms(4) transferEncrypted_zero)
  have later: "claimWinnings env3 m (run s2 trace) = Inl AlreadyClaimed" for trace
    using run_keeps_claimed [of s2 m "msg_sender env1" trace] inv
      claimWinnings_claimed [of "run s2 trace" m env3] assms(5) by simp
  have set: "setResolution env2 m k s2 = Inr s3 \<longrightarrow> claimWinnings env3 m s3 = Inl AlreadyClaimed"
  proof
    assume "setResolution env2 m k s2 = Inr s3"
    then have "run s2 [(env2, SetResolution m k)] = s3"
      by (simp add: transact_def)
    with later [of "[(env2, SetResolution m k)]"]
    show "claimWinnings env3 m s3 = Inl AlreadyClaimed" by simp
  qed
  from st oc pay claim inv bal set later show ?thesis by blast
qed

text \<open>In the scenario: Alice claims right after the totals are submitted, keeps her
  balance of 4000, and is refused once the outcome is Yes.\<close>

theorem claim_before_outcome_pays_zero_witness:
  "submitDecryptedTotals (after 6 9100) 0 marketHandles (abi_encode_uint64_pair 1000 2000) [2]
       s_resolving = Inr s_settled
   \<and> resolvedOutcome (markets s_settled 0) = NotSet
   \<and> claimWinnings (after 2 9150) 0 s_settled =
       Inr (transact (after 2 9150) (ClaimWinnings 0) s_settled)
   \<and> plain (balanceOf (token (transact (after 2 9150) (ClaimWinnings 0)
               s_settled)) 2) = 4000
   \<and> setResolution (after 4 9200) 0 1
        (transact (after 2 9150) (ClaimWinnings 0) s_settled) =
       Inr (transact (after 4 9200) (SetResolution 0 1)
             (transact (after 2 9150) (ClaimWinnings 0) s_settled))
   \<and> claimWinnings (after 2 9300) 0
        (transact (after 4 9200) (SetResolution 0 1)
           (transact (after 2 9150) (ClaimWinnings 0) s_settled)) =
       Inl AlreadyClaimed"
proof -
  have sub: "submitDecryptedTotals (after 6 9100) 0 marketHandles
       (abi_encode_uint64_pair 1000 2000) [2] s_resolving = Inr s_settled"
    by (simp add: scenario_simps model_defs)
  have g: "\<not> reentrancyEntered s_resolving"
    by (simp add: scenario_simps model_defs)
  have nc: "\<not> claimed (positions s_resolving 0 (msg_sender (after 2 9150)))"
    by (simp add: scenario_simps model_defs)
  have cl: "claimWinnings (after 2 9150) 0 s_settled =
       Inr (transact (after 2 9150) (ClaimWinnings 0) s_settled)"
    by (simp add: scenario_simps model_defs payout_defs)
  have s2: "transact (after 2 9150) (ClaimWinnings 0) s_settled =
      (markClaimed 0 (msg_sender (after 2 9150)) s_settled)
        \<lparr>token := transferEncrypted (token s_settled)
            (self s_settled) (msg_sender (after 2 9150)) (FHE_asEuint64 0)\<rparr>"
    using cl claim_before_outcome_pays_zero [OF sub g nc refl, of "after 2 9150"] by simp
  have same: "msg_sender (after 2 9300) = msg_sender (after 2 9150)"
    by (simp add: after_def)
  have b0: "plain (balanceOf (token s_settled) 2) = 4000"
    by (simp add: scenario_simps model_defs)
  have sr: "setResolution (after 4 9200) 0 1
        (transact (after 2 9150) (ClaimWinnings 0) s_settled) =
       Inr (transact (after 4 9200) (SetResolution 0 1)
             (transact (after 2 9150) (ClaimWinnings 0) s_settled))"
    by (simp add: scenario_simps model_defs payout_defs)
  from claim_before_outcome_pays_zero [OF sub g nc s2 same,
      of 2 "after 4 9200" 1
         "transact (after 4 9200) (SetResolution 0 1)
             (transact (after 2 9150) (ClaimWinnings 0) s_settled)" "[]"]
    sub cl b0 sr
  show ?thesis by simp
qed

section \<open>Placing a bet\<close>

text \<open>
  Claim C1: for every \<open>placeBet\<close> call that completes, the amount added to the
  bettor's encrypted position and to the market's encrypted pool totals is the observed
  balance delta of the market contract across the token transfer,
  \<open>balanceAfter - balanceBefore\<close>, and not the requested amount: the new position and
  the new market are \<open>updatePosition\<close> and \<open>updateMarketTotals\<close> of the old ones with
  that difference, so the side selected by the encrypted outcome grows by the delta (in
  64-bit arithmetic) and the other side keeps its value. This holds whatever the token
  does with the transfer.
\<close>

theorem placeBet_credits_observed_delta:
  assumes "placeBet env m encryptedAmount encryptedOutcome inputProof s = Inr s'"
    and "actualAmount = FHE_sub (balanceOf (token s') (self s)) (balanceOf (token s) (self s))"
  shows "positions s' m (msg_sender env) =
           updatePosition (positions s m (msg_sender env)) actualAmount encryptedOutcome
             (msg_sender env)
       \<and> markets s' m = updateMarketTotals (markets s m) actualAmount encryptedOutcome
       \<and> plain actualAmount =
           plain (balanceOf (token s') (self s)) - plain (balanceOf (token s) (self s))
       \<and> plain (yesAmount (positions s' m (msg_sender env))) =
           plain (yesAmount (positions s m (msg_sender env))) +
             (if plain encryptedOutcome then plain actualAmount else 0)
       \<and> plain (noAmount (positions s' m (msg_sender env))) =
           plain (noAmount (positions s m (msg_sender env))) +
             (if plain encryptedOutcome then 0 else plain actualAmount)
       \<and> plain (totalYesAmount (markets s' m)) =
           plain (totalYesAmount (markets s m)) +
             (if plain encryptedOutcome then plain actualAmount else 0)
       \<and> plain (totalNoAmount (markets s' m)) =
           plain (totalNoAmount (markets s m)) +
             (if plain encryptedOutcome then 0 else plain actualAmount)"
  using assms
  by (auto simp: placeBet_Inr Let_def updatePosition_def updateMarketTotals_def
      FHE_select_def FHE_add_def FHE_sub_def)

text \<open>In the scenario, Carol asks to stake 1000 with an allowance of 400: the token
  moves nothing, the market's balance stays 3000, and her position and the Yes pool
  gain nothing.\<close>

theorem placeBet_credits_observed_delta_witness:
  "placeBet (at 5 2500) 0 (enc64 5 1000) (encBool 6 True) True s_open =
     Inr (transact (at 5 2500) (PlaceBet 0 (enc64 5 1000) (encBool 6 True) True)
            s_open)
   \<and> plain (enc64 5 1000) = 1000
   \<and> plain (balanceOf (token (transact (at 5 2500)
         (PlaceBet 0 (enc64 5 1000) (encBool 6 True) True) s_open)) 100) = 3000
   \<and> plain (balanceOf (token s_open) 100) = 3000
   \<and> plain (yesAmount (positions (transact (at 5 2500)
         (PlaceBet 0 (enc64 5 1000) (encBool 6 True) True) s_open) 0 5)) = 0
   \<and> plain (totalYesAmount (markets (transact (at 5 2500)
         (PlaceBet 0 (enc64 5 1000) (encBool 6 True) True) s_open) 0)) = 1000
   \<and> plain (totalYesAmount (markets s_open 0)) = 1000"
proof -
  let ?s = "s_open"
  let ?s' = "transact (at 5 2500) (PlaceBet 0 (enc64 5 1000) (encBool 6 True) True) ?s"
  have ok: "placeBet (at 5 2500) 0 (enc64 5 1000) (encBool 6 True) True ?s = Inr ?s'"
    by (simp add: scenario_simps model_defs)
  have b: "plain (balanceOf (token ?s) 100) = 3000"
    by (simp add: scenario_simps model_defs)
  have b': "plain (balanceOf (token ?s') 100) = 3000"
    by (simp add: scenario_simps model_defs)
  have self: "self ?s = 100"
    by (simp add: scenario_simps model_defs)
  have y: "plain (yesAmount (positions ?s 0 5)) = 0"
    by (simp add: scenario_simps model_defs)
  have t: "plain (totalYesAmount (markets ?s 0)) = 1000"
    by (simp add: scenario_simps model_defs)
  have sender: "msg_sender (at 5 2500) = 5" and o: "plain (encBool 6 True)"
    and a: "plain (enc64 5 1000) = 1000"
    by (simp_all add: at_def encBool_def enc64_def)
  from placeBet_credits_observed_delta [OF ok refl, THEN conjunct2, THEN conjunct2]
    ok b b' self y t sender o a
  show ?thesis by (simp add: FHE_sub_def)
qed

section \<open>Refund of an invalid market\<close>

text \<open>
  Claim C7: in a market resolved with outcome Invalid, the payout of every bettor's
  claim is the encrypted sum \<open>yesAmount + noAmount\<close> of their position: that sum is
  what \<open>calculatePayout\<close> returns and what \<open>claimWinnings\<close> asks the token to
  transfer, whatever the pool totals are and with nothing deducted. The sum is the
  64-bit sum, and it is the sum of the two numbers whenever that fits 64 bits.
\<close>

theorem invalid_outcome_full_refund:
  assumes "m < marketCount s" and "state (markets s m) = Resolved"
    and "resolvedOutcome (markets s m) = Invalid"
    and "\<not> claimed (positions s m (msg_sender env))" and "\<not> reentrancyEntered s"
    and "p = positions s m (msg_sender env)"
  shows "calculatePayout p (markets s m) (uint8_of_Outcome (resolvedOutcome (markets s m))) =
           Inr (FHE_add (yesAmount p) (noAmount p))
       \<and> claimWinnings env m s =
           Inr ((markClaimed m (msg_sender env) s)
                  \<lparr>token := transferEncrypted (token s) (self s) (msg_sender env)
                              (FHE_add (yesAmount p) (noAmount p))\<rparr>)
       \<and> plain (FHE_add (yesAmount p) (noAmount p)) = plain (yesAmount p) + plain (noAmount p)
       \<and> (unat (plain (yesAmount p)) + unat (plain (noAmount p)) < 2 ^ 64 \<longrightarrow>
            unat (plain (FHE_add (yesAmount p) (noAmount p))) =
              unat (plain (yesAmount p)) + unat (plain (noAmount p)))"
proof -
  have pay: "calculatePayout p (markets s m) (uint8_of_Outcome (resolvedOutcome (markets s m))) =
           Inr (FHE_add (yesAmount p) (noAmount p))"
    by (simp add: assms(3) calculatePayout_def)
  have claim: "claimWinnings env m s =
           Inr ((markClaimed m (msg_sender env) s)
                  \<lparr>token := transferEncrypted (token s) (self s) (msg_sender env)
                              (FHE_add (yesAmount p) (noAmount p))\<rparr>)"
    using assms pay by (simp add: claimWinnings_Inr)
  have sum: "plain (FHE_add (yesAmount p) (noAmount p)) = plain (yesAmount p) + plain (noAmount p)"
    by (simp add: FHE_add_def)
  have nat: "unat (plain (yesAmount p)) + unat (plain (noAmount p)) < 2 ^ 64 \<longrightarrow>
            unat (plain (FHE_add (yesAmount p) (noAmount p))) =
              unat (plain (yesAmount p)) + unat (plain (noAmount p))"
    using unat_add_no_overflow [of "plain (yesAmount p)" "plain (noAmount p)"]
    by (simp add: FHE_add_def)
  from pay claim sum nat show ?thesis by blast
qed

text \<open>In the scenario with outcome Invalid, Bob, who staked 2000 on No, is paid
  2000.\<close>

theorem invalid_outcome_full_refund_witness:
  "0 < marketCount s_invalid
   \<and> state (markets s_invalid 0) = Resolved
   \<and> resolvedOutcome (markets s_invalid 0) = Invalid
   \<and> plain (yesAmount (positions s_invalid 0 3)) = 0
   \<and> plain (noAmount (positions s_invalid 0 3)) = 2000
   \<and> claimWinnings (after 3 9300) 0 s_invalid =
       Inr ((markClaimed 0 3 s_invalid)
              \<lparr>token := transferEncrypted (token s_invalid) 100 3
                 (FHE_add (yesAmount (positions s_invalid 0 3))
                          (noAmount (positions s_invalid 0 3)))\<rparr>)
   \<and> unat (plain (FHE_add (yesAmount (positions s_invalid 0 3))
                          (noAmount (positions s_invalid 0 3)))) = 2000"
proof -
  let ?s = "s_invalid"
  have c: "0 < marketCount ?s" and st: "state (markets ?s 0) = Resolved"
    and oc: "resolvedOutcome (markets ?s 0) = Invalid"
    and nc: "\<not> claimed (positions ?s 0 (msg_sender (after 3 9300)))"
    and g: "\<not> reentrancyEntered ?s"
    and y: "plain (yesAmount (positions ?s 0 3)) = 0"
    and n: "plain (noAmount (positions ?s 0 3)) = 2000"
    and self: "self ?s = 100"
    by (simp_all add: scenario_simps model_defs)
  have sender: "msg_sender (after 3 9300) = 3"
    by (simp add: after_def)
  from invalid_outcome_full_refund [OF c st oc nc g refl] c st oc y n self sender
  show ?thesis by simp
qed

section \<open>The sum of the winners' payouts\<close>

lemma div_add_le: "(a::nat) div w + b div w \<le> (a + b) div w"
  by (simp only: div_add1_eq [of a b w] le_add1)

lemma div_mult_add_le: "(a::nat) * l div w + b * l div w \<le> (a + b) * l div w"
  using div_add_le [of "a * l" w "b * l"] by (simp only: add_mult_distrib)

lemma unat_add_le: "unat ((a::uint64) + b) \<le> unat a + unat b"
  by (simp add: unat_word_ariths)

lemma unat_mult_le: "unat ((a::uint64) * b) \<le> unat a * unat b"
  by (simp add: unat_word_ariths)

lemma calculateWinningPayout_Inr:
  assumes "calculateWinningPayout u market isYesWinner = Inr p"
    and "totalsDecrypted market"
    and "winningPool = (if isYesWinner then decryptedYesAmount market else decryptedNoAmount market)"
    and "losingPool = (if isYesWinner then decryptedNoAmount market else decryptedYesAmount market)"
    and "winningPool \<noteq> 0" and "losingPool \<noteq> 0"
  shows "plain p = plain u + plain u * losingPool div winningPool"
  using assms
  by (auto simp: calculateWinningPayout_def and_then_def FHE_div_def FHE_mul_def FHE_add_def
      FHE_asEuint64_def Let_def split: sum.splits if_splits)

lemma winning_payout_le:
  assumes "calculateWinningPayout u market isYesWinner = Inr p"
    and "totalsDecrypted market"
    and "winningPool = (if isYesWinner then decryptedYesAmount market else decryptedNoAmount market)"
    and "losingPool = (if isYesWinner then decryptedNoAmount market else decryptedYesAmount market)"
    and "winningPool \<noteq> 0" and "losingPool \<noteq> 0"
  shows "unat (plain p) \<le> unat (plain u) + unat (plain u) * unat losingPool div unat winningPool"
proof -
  have p: "plain p = plain u + plain u * losingPool div winningPool"
    by (rule calculateWinningPayout_Inr [OF assms])
  have "unat (plain u + plain u * losingPool div winningPool) \<le>
        unat (plain u) + unat (plain u * losingPool div winningPool)"
    by (rule unat_add_le)
  moreover have "unat (plain u * losingPool div winningPool) =
        unat (plain u * losingPool) div unat winningPool"
    by (rule unat_div)
  moreover have "unat (plain u * losingPool) div unat winningPool \<le>
        unat (plain u) * unat losingPool div unat winningPool"
    by (rule div_le_mono) (rule unat_mult_le)
  ultimately have "unat (plain u + plain u * losingPool div winningPool) \<le>
      unat (plain u) + unat (plain u) * unat losingPool div unat winningPool"
    by linarith
  then show ?thesis by (simp only: p)
qed

lemma sum_payouts_le:
  assumes "totalsDecrypted market"
    and "winningPool = (if isYesWinner then decryptedYesAmount market else decryptedNoAmount market)"
    and "losingPool = (if isYesWinner then decryptedNoAmount market else decryptedYesAmount market)"
    and "winningPool \<noteq> 0" and "losingPool \<noteq> 0"
  shows "sum_payouts stakes market isYesWinner = Inr paid \<Longrightarrow>
         paid \<le> stake_total stakes + stake_total stakes * unat losingPool div unat winningPool"
proof (induction stakes arbitrary: paid)
  case Nil
  then show ?case by (simp add: stake_total_def)
next
  case (Cons u us)
  from Cons.prems obtain p t where
    p: "calculateWinningPayout u market isYesWinner = Inr p"
    and t: "sum_payouts us market isYesWinner = Inr t"
    and paid: "paid = unat (plain p) + t"
    by (auto simp: and_then_def split: sum.splits)
  have a: "unat (plain p) \<le> unat (plain u) + unat (plain u) * unat losingPool div unat winningPool"
    by (rule winning_payout_le [OF p assms])
  have b: "t \<le> stake_total us + stake_total us * unat losingPool div unat winningPool"
    by (rule Cons.IH [OF t])
  define x where "x = unat (plain u)"
  define S where "S = stake_total us"
  define L where "L = unat losingPool"
  define W where "W = unat winningPool"
  have e: "stake_total (u # us) = x + S"
    by (simp add: stake_total_def x_def S_def)
  define A where "A = x * L div W"
  define B where "B = S * L div W"
  define C where "C = (x + S) * L div W"
  have d: "A + B \<le> C"
    unfolding A_def B_def C_def by (rule div_mult_add_le)
  have a': "unat (plain p) \<le> x + A"
    using a by (simp only: x_def L_def W_def A_def)
  have b': "t \<le> S + B"
    using b by (simp only: S_def L_def W_def B_def)
  have "paid \<le> (x + S) + C"
    using a' b' d paid by linarith
  then have "paid \<le> (x + S) + (x + S) * L div W"
    by (simp only: C_def)
  then show ?case
    by (simp only: e L_def W_def)
qed

text \<open>
  Claim C8, as stated: with both pools nonzero, the payouts of winning positions whose
  stakes sum to the winning pool sum to at most the prize pool, the combined pool less
  the fee. This fails: with Yes = 1500, No = 2000 and outcome Yes, the stakes 1000 and
  500 are paid 2333 and 1166, in sum 3499, and the prize pool is 3500 - 70 = 3430. The
  fee and the prize pool are computed and never enter the payout.
\<close>

theorem fee_not_extracted_counterexample:
  "totalsDecrypted (settledMarket 1500 2000)
   \<and> decryptedYesAmount (settledMarket 1500 2000) = 1500
   \<and> decryptedNoAmount (settledMarket 1500 2000) = 2000
   \<and> stake_total [enc64 1 1000, enc64 2 500] = 1500
   \<and> sum_payouts [enc64 1 1000, enc64 2 500] (settledMarket 1500 2000) True = Inr 3499
   \<and> calculateMarketFee (settledMarket 1500 2000) = Inr 70
   \<and> prizePool (settledMarket 1500 2000) = Inr 3430
   \<and> (3430 :: nat) < 3499"
  by (simp add: payout_defs stake_total_def)

text \<open>
  Claim C8, amended: with both decrypted pools nonzero, winners split the losing pool
  pro rata; for any list of winning stakes that sum to the winning pool, whenever their
  payouts are computed, the sum of the payouts does not exceed the combined pool
  \<open>winningPool + losingPool\<close>.
\<close>

theorem payouts_within_combined_pool:
  assumes "totalsDecrypted market"
    and "winningPool = (if isYesWinner then decryptedYesAmount market else decryptedNoAmount market)"
    and "losingPool = (if isYesWinner then decryptedNoAmount market else decryptedYesAmount market)"
    and "winningPool \<noteq> 0" and "losingPool \<noteq> 0"
    and "stake_total stakes = unat winningPool"
    and "sum_payouts stakes market isYesWinner = Inr paid"
  shows "paid \<le> unat winningPool + unat losingPool"
proof -
  have "unat winningPool \<noteq> 0"
    using assms(4) by (simp add: unat_eq_0)
  then have "unat winningPool * unat losingPool div unat winningPool = unat losingPool"
    by simp
  with sum_payouts_le [OF assms(1-5) assms(7)] show ?thesis
    by (simp add: assms(6))
qed

theorem payouts_within_combined_pool_witness:
  "totalsDecrypted (settledMarket 1500 2000)
   \<and> decryptedYesAmount (settledMarket 1500 2000) = 1500
   \<and> decryptedNoAmount (settledMarket 1500 2000) = 2000
   \<and> stake_total [enc64 1 1000, enc64 2 500] = unat (1500 :: uint64)
   \<and> sum_payouts [enc64 1 1000, enc64 2 500] (settledMarket 1500 2000) True = Inr 3499
   \<and> (3499 :: nat) \<le> unat (1500 :: uint64) + unat (2000 :: uint64)"
proof -
  have d: "totalsDecrypted (settledMarket 1500 2000)"
    and y: "decryptedYesAmount (settledMarket 1500 2000) = 1500"
    and n: "decryptedNoAmount (settledMarket 1500 2000) = 2000"
    by (simp_all add: settledMarket_def zeroMarket_def)
  have w: "(1500 :: uint64) = (if True then decryptedYesAmount (settledMarket 1500 2000)
                               else decryptedNoAmount (settledMarket 1500 2000))"
    and l: "(2000 :: uint64) = (if True then decryptedNoAmount (settledMarket 1500 2000)
                               else decryptedYesAmount (settledMarket 1500 2000))"
    by (simp_all add: y n)
  have nz: "(1500 :: uint64) \<noteq> 0" "(2000 :: uint64) \<noteq> 0"
    by simp_all
  have st: "stake_total [enc64 1 1000, enc64 2 500] = unat (1500 :: uint64)"
    by (simp add: stake_total_def enc64_def)
  have sp: "sum_payouts [enc64 1 1000, enc64 2 500] (settledMarket 1500 2000) True = Inr 3499"
    by (simp add: payout_defs stake_total_def)
  from payouts_within_combined_pool [OF d w l nz st sp] d y n st sp
  show ?thesis by simp
qed

section \<open>Submitting the decrypted totals\<close>

lemma submit_unverified_rejected:
  "m < marketCount s \<Longrightarrow> state (markets s m) = Resolving \<Longrightarrow>
   \<not> checkSignatures env hs ct pf \<Longrightarrow>
   submitDecryptedTotals env m hs ct pf s = Inl InvalidKMSSignatures \<and>
   transact env (SubmitDecryptedTotals m hs ct pf) s = s"
  by (simp add: transact_def submitDecryptedTotals_def marketExists_def
      Resolvable_submitDecryptedTotals_def and_then_def)

lemma submit_stores_cleartexts:
  assumes "submitDecryptedTotals env m hs ct pf s = Inr s'"
  shows "checkSignatures env hs ct pf \<and> totalsDecrypted (markets s' m) \<and>
         abi_decode_uint64_pair ct =
           Inr (decryptedYesAmount (markets s' m), decryptedNoAmount (markets s' m))"
  using assms by (auto simp: submitDecryptedTotals_Inr markResolved_def)

text \<open>
  Claim C4: \<open>submitDecryptedTotals\<close> stores the plaintext totals only when the proof
  verifies against exactly the handles of the market's own encrypted Yes and No totals,
  together with the claimed cleartexts. A submission whose proof does not verify is
  rejected and leaves the state unchanged (lemma \<open>submit_unverified_rejected\<close>), and a
  stored pair is the one the verified cleartexts decode to (lemma
  \<open>submit_stores_cleartexts\<close>). But the handles the proof is verified against are the
  ones the caller passes, and the code never compares them with the market's: in the
  scenario, while market 0 is Resolving with pools that encrypt 1000 and 2000, the
  outsider submits the decryption signed for the foreign ciphertexts \<open>Input 77\<close> and
  \<open>Input 78\<close>; it is accepted, and the market is resolved with the totals 5000 and 0.
\<close>

theorem foreign_decryption_accepted:
  "state (markets s_resolving 0) = Resolving
   \<and> plain (totalYesAmount (markets s_resolving 0)) = 1000
   \<and> plain (totalNoAmount (markets s_resolving 0)) = 2000
   \<and> [FHE_toBytes32 (totalYesAmount (markets s_resolving 0)),
       FHE_toBytes32 (totalNoAmount (markets s_resolving 0))] \<noteq> foreignHandles
   \<and> call (at 6 9050)
        (SubmitDecryptedTotals 0 foreignHandles (abi_encode_uint64_pair 5000 0) [1])
        s_resolving =
       Inr (transact (at 6 9050)
        (SubmitDecryptedTotals 0 foreignHandles (abi_encode_uint64_pair 5000 0) [1])
        s_resolving)
   \<and> totalsDecrypted (markets (transact (at 6 9050)
        (SubmitDecryptedTotals 0 foreignHandles (abi_encode_uint64_pair 5000 0) [1])
        s_resolving) 0) = True
   \<and> decryptedYesAmount (markets (transact (at 6 9050)
        (SubmitDecryptedTotals 0 foreignHandles (abi_encode_uint64_pair 5000 0) [1])
        s_resolving) 0) = 5000
   \<and> decryptedNoAmount (markets (transact (at 6 9050)
        (SubmitDecryptedTotals 0 foreignHandles (abi_encode_uint64_pair 5000 0) [1])
        s_resolving) 0) = 0
   \<and> state (markets (transact (at 6 9050)
        (SubmitDecryptedTotals 0 foreignHandles (abi_encode_uint64_pair 5000 0) [1])
        s_resolving) 0) = Resolved"
  by (simp add: scenario_simps model_defs)

section \<open>Setting the outcome\<close>

lemma setResolution_requirements:
  assumes "setResolution env m k s = Inr s'"
  shows "m < marketCount s \<and> state (markets s m) = Resolved \<and>
         (resolver (markets s m) = msg_sender env \<or> msg_sender env = owner s) \<and>
         (k = 1 \<or> k = 2 \<or> k = 3) \<and>
         s' = s\<lparr>markets := (markets s)(m := (markets s m)\<lparr>resolvedOutcome :=
                  (if k = 1 then Yes else if k = 2 then No else Invalid)\<rparr>)\<rparr>"
  using assms
  by (auto simp: setResolution_Inr Outcome_of_uint8_def split: if_splits)

lemma setResolution_NotSet: "setResolution env m 0 s \<noteq> Inr s'"
  by (auto simp: setResolution_Inr Outcome_of_uint8_def)

lemma setResolution_out_of_range: "3 < k \<Longrightarrow> setResolution env m k s = Inl AbiDecodeError"
  by (simp add: setResolution_def Outcome_of_uint8_def and_then_def)

text \<open>
  Claim C5: \<open>setResolution\<close> succeeds only for an authorized resolver, on a market in
  state Resolved whose outcome is still NotSet, with an argument among Yes, No and
  Invalid; so an outcome, once set, is never changed. The code checks the caller, the
  state and the argument (lemmas \<open>setResolution_requirements\<close>,
  \<open>setResolution_NotSet\<close> and \<open>setResolution_out_of_range\<close>), and does not check that
  the outcome is still NotSet: in the scenario, after the resolver has set the outcome
  of market 0 to Yes, a second call by the resolver with No succeeds and the outcome is
  No.
\<close>

theorem outcome_overwritten:
  "state (markets s_yes 0) = Resolved
   \<and> resolvedOutcome (markets s_yes 0) = Yes
   \<and> call (after 4 9300) (SetResolution 0 2) s_yes =
       Inr (transact (after 4 9300) (SetResolution 0 2) s_yes)
   \<and> resolvedOutcome (markets (transact (after 4 9300) (SetResolution 0 2) s_yes) 0) = No"
  by (simp add: scenario_simps model_defs)

end
